theory Spec2Isabelle
  imports Main "HOL-Library.Word"
begin

section \<open>Build configuration of md5sum.c\<close>

text \<open>
  md5sum.c is compiled once per hash algorithm. The embedding covers the builds with a
  fixed digest size (the branches under \<open>#if HASH_HAVE_VARIABLE_SIZE\<close> are compiled
  out there); the algorithm is a parameter of every function that depends on it.
\<close>

datatype hash_algo = MD2 | MD4 | MD5 | SHA1 | SHA224 | SHA256 | SHA384 | SHA512

fun DIGEST_TYPE_STRING :: "hash_algo \<Rightarrow> string" where
  "DIGEST_TYPE_STRING MD2 = ''MD2''"
| "DIGEST_TYPE_STRING MD4 = ''MD4''"
| "DIGEST_TYPE_STRING MD5 = ''MD5''"
| "DIGEST_TYPE_STRING SHA1 = ''SHA1''"
| "DIGEST_TYPE_STRING SHA224 = ''SHA224''"
| "DIGEST_TYPE_STRING SHA256 = ''SHA256''"
| "DIGEST_TYPE_STRING SHA384 = ''SHA384''"
| "DIGEST_TYPE_STRING SHA512 = ''SHA512''"

fun DIGEST_BITS :: "hash_algo \<Rightarrow> nat" where
  "DIGEST_BITS MD2 = 128"
| "DIGEST_BITS MD4 = 128"
| "DIGEST_BITS MD5 = 128"
| "DIGEST_BITS SHA1 = 160"
| "DIGEST_BITS SHA224 = 224"
| "DIGEST_BITS SHA256 = 256"
| "DIGEST_BITS SHA384 = 384"
| "DIGEST_BITS SHA512 = 512"

definition DIGEST_HEX_BYTES :: "hash_algo \<Rightarrow> nat" where
  "DIGEST_HEX_BYTES a = DIGEST_BITS a div 4"

definition MIN_DIGEST_LINE_LENGTH :: "hash_algo \<Rightarrow> nat" where
  "MIN_DIGEST_LINE_LENGTH a = DIGEST_HEX_BYTES a + 2 + 1"

text \<open>The option variables of the program, as \<open>main\<close> leaves them after option parsing.\<close>

datatype ignore_mode_t = IGNORE_DEFAULT | IGNORE_MINIMAL

record config =
  algo :: hash_algo
  status_only :: bool
  warn :: bool
  ignore_missing :: bool
  quiet :: bool
  strict :: bool
  prefix_tag :: bool
  delim :: char
  recursive :: bool
  ignore_mode :: ignore_mode_t
  ignore_patterns :: "string list"
  hide_patterns :: "string list"

section \<open>C strings\<close>

text \<open>
  A line buffer of length \<open>s_len\<close> is the list of its bytes; the byte at index
  \<open>s_len\<close> is the terminating NUL that \<open>getline\<close> writes. A pointer into the buffer
  is the suffix of the list that starts there.
\<close>

definition NUL :: char where "NUL = CHR 0x00"
definition NEWLINE :: char where "NEWLINE = CHR 0x0A"
definition BACKSLASH :: char where "BACKSLASH = CHR 0x5C"

definition cs :: "string \<Rightarrow> nat \<Rightarrow> char" where
  "cs s i = (if i < length s then s ! i else NUL)"

definition cstring :: "string \<Rightarrow> string" where
  "cstring p = takeWhile (\<lambda>c. c \<noteq> NUL) p"

definition ISWHITE :: "char \<Rightarrow> bool" where
  "ISWHITE c = (c = CHR '' '' \<or> c = CHR 0x09)"

definition isxdigit :: "char \<Rightarrow> bool" where
  "isxdigit c = (c \<in> set ''0123456789abcdefABCDEF'')"

definition tolower :: "char \<Rightarrow> char" where
  "tolower c = (let n = (of_char c :: nat) in
                if 65 \<le> n \<and> n \<le> 90 then char_of (n + 32) else c)"

text \<open>\<open>while (ISWHITE (s[i])) i++;\<close>\<close>

definition skip_white :: "string \<Rightarrow> nat \<Rightarrow> nat" where
  "skip_white s i = i + length (takeWhile ISWHITE (drop i s))"

section \<open>Checksum line codec\<close>

fun filename_unescape :: "string \<Rightarrow> string option" where
  "filename_unescape [] = Some []"
| "filename_unescape (c # r) =
     (if c = BACKSLASH then
        (case r of
           [] \<Rightarrow> None
         | d # r' \<Rightarrow>
             if d = CHR ''n'' then map_option ((#) NEWLINE) (filename_unescape r')
             else if d = BACKSLASH then map_option ((#) BACKSLASH) (filename_unescape r')
             else None)
      else if c = NUL then None
      else map_option ((#) c) (filename_unescape r))"

text \<open>\<open>hex_digits\<close>: \<open>n\<close> hexadecimal digits followed by NUL, read from a pointer.\<close>

fun hex_digits :: "nat \<Rightarrow> string \<Rightarrow> bool" where
  "hex_digits 0 p = (cs p 0 = NUL)"
| "hex_digits (Suc n) p = (case p of [] \<Rightarrow> False | c # r \<Rightarrow> isxdigit c \<and> hex_digits n r)"

text \<open>\<open>while (i != 0 && s[i] != ')') i--;\<close>\<close>

fun find_rparen :: "string \<Rightarrow> nat \<Rightarrow> nat" where
  "find_rparen s 0 = 0"
| "find_rparen s (Suc i) = (if cs s (Suc i) \<noteq> CHR '')'' then find_rparen s i else Suc i)"

text \<open>
  \<open>bsd_split_3\<close> on the pointer \<open>s\<close> with \<open>s_len = length s\<close>: the result is the pair
  (hex digest, file name), both as the C strings the out-parameters point to.
\<close>

definition bsd_split_3 :: "nat \<Rightarrow> string \<Rightarrow> bool \<Rightarrow> (string \<times> string) option" where
  "bsd_split_3 digest_hex_bytes s escaped_filename =
     (if length s = 0 then None
      else
        let i = find_rparen s (length s - 1) in
        if cs s i \<noteq> CHR '')'' then None
        else
          let unescaped = filename_unescape (take i s) in
          if escaped_filename \<and> unescaped = None then None
          else
            let file_name = (if escaped_filename then the unescaped else cstring (take i s));
                s1 = s[i := NUL];
                i1 = skip_white s1 (i + 1)
            in
            if cs s1 i1 \<noteq> CHR ''='' then None
            else
              let i2 = skip_white s1 (i1 + 1);
                  hex_digest = drop i2 s1
              in
              if hex_digits digest_hex_bytes hex_digest
              then Some (cstring hex_digest, file_name)
              else None)"

text \<open>
  \<open>split_3\<close>: the first component is \<open>None\<close> when the C function returns false, and
  otherwise the triple (hex digest, \<open>*binary\<close> if it was assigned, file name); the second
  is the value of the global \<open>bsd_reversed\<close> on return. The argument \<open>bsd\<close> is its value
  on entry. Every index stays within \<open>0..s_len\<close>, so the subtractions on \<open>size_t\<close> do
  not wrap.
\<close>

definition split_3_finish ::
  "string \<Rightarrow> nat \<Rightarrow> bool \<Rightarrow> string \<Rightarrow> int option \<Rightarrow> int \<Rightarrow>
     (string \<times> int option \<times> string) option \<times> int" where
  "split_3_finish s i escaped_filename hex_digest binary bsd =
     (if escaped_filename then
        (case filename_unescape (drop i s) of
           None \<Rightarrow> (None, bsd)
         | Some f \<Rightarrow> (Some (hex_digest, binary, f), bsd))
      else (Some (hex_digest, binary, cstring (drop i s)), bsd))"

definition split_3 ::
  "hash_algo \<Rightarrow> int \<Rightarrow> string \<Rightarrow> (string \<times> int option \<times> string) option \<times> int" where
  "split_3 a bsd s =
     (let s_len = length s;
          i0 = skip_white s 0;
          escaped_filename = (cs s i0 = BACKSLASH);
          i = (if escaped_filename then i0 + 1 else i0);
          algo_name_len = length (DIGEST_TYPE_STRING a)
      in
      if take algo_name_len (drop i s) = DIGEST_TYPE_STRING a then
        (let j = i + algo_name_len;
             j1 = (if cs s j = CHR '' '' then j + 1 else j)
         in
         if cs s j1 = CHR ''(''
         then (case bsd_split_3 (DIGEST_HEX_BYTES a) (drop (j1 + 1) s) escaped_filename of
                 None \<Rightarrow> (None, bsd)
               | Some (hex_digest, file_name) \<Rightarrow> (Some (hex_digest, Some 0, file_name), bsd))
         else (None, bsd))
      else if s_len - i < MIN_DIGEST_LINE_LENGTH a + (if cs s i = BACKSLASH then 1 else 0)
      then (None, bsd)
      else
        (let k = i + DIGEST_HEX_BYTES a in
         if \<not> ISWHITE (cs s k) then (None, bsd)
         else
           let s1 = s[k := NUL];
               hex_digest = drop i s1;
               k1 = k + 1
           in
           if \<not> hex_digits (DIGEST_HEX_BYTES a) hex_digest then (None, bsd)
           else if s_len - k1 = 1 \<or> (cs s1 k1 \<noteq> CHR '' '' \<and> cs s1 k1 \<noteq> CHR ''*'') then
             (if bsd = 0 then (None, bsd)
              else split_3_finish s1 k1 escaped_filename (cstring hex_digest) None 1)
           else if bsd \<noteq> 1 then
             split_3_finish s1 (k1 + 1) escaped_filename (cstring hex_digest)
               (Some (if cs s1 k1 = CHR ''*'' then 1 else 0)) 0
           else split_3_finish s1 k1 escaped_filename (cstring hex_digest) None bsd))"

definition print_filename :: "string \<Rightarrow> bool \<Rightarrow> string" where
  "print_filename file escape =
     (if \<not> escape then file
      else concat (map (\<lambda>c. if c = NEWLINE then [BACKSLASH, CHR ''n'']
                             else if c = BACKSLASH then [BACKSLASH, BACKSLASH]
                             else [c]) file))"

text \<open>\<open>printf ("%02x", b)\<close> and the table \<open>bin2hex\<close> of \<open>digest_check\<close>.\<close>

definition bin2hex :: string where
  "bin2hex = ''0123456789abcdef''"

definition hex_byte :: "8 word \<Rightarrow> string" where
  "hex_byte b = [bin2hex ! unat (drop_bit 4 b), bin2hex ! unat (and b 0x0F)]"

definition print_hex :: "nat \<Rightarrow> (nat \<Rightarrow> 8 word) \<Rightarrow> string" where
  "print_hex n bin_buffer = concat (map (\<lambda>i. hex_byte (bin_buffer i)) [0..<n])"

text \<open>
  \<open>print_digest\<close>: the bytes written to standard output. \<open>bin_buffer\<close> is the digest
  buffer, read at the indices below \<open>digest_hex_bytes / 2\<close>.
\<close>

definition print_digest :: "config \<Rightarrow> string \<Rightarrow> int \<Rightarrow> (nat \<Rightarrow> 8 word) \<Rightarrow> string" where
  "print_digest cfg file file_is_binary bin_buffer =
     (let needs_escape = ((BACKSLASH \<in> set file \<or> NEWLINE \<in> set file) \<and> delim cfg = NEWLINE)
      in
      (if prefix_tag cfg then
         (if needs_escape then [BACKSLASH] else []) @ DIGEST_TYPE_STRING (algo cfg) @ '' (''
           @ print_filename file needs_escape @ '') = ''
       else [])
      @ (if \<not> prefix_tag cfg \<and> needs_escape then [BACKSLASH] else [])
      @ print_hex (DIGEST_HEX_BYTES (algo cfg) div 2) bin_buffer
      @ (if \<not> prefix_tag cfg then
           [CHR '' '', if file_is_binary \<noteq> 0 then CHR ''*'' else CHR '' '']
             @ print_filename file needs_escape
         else [])
      @ [delim cfg])"

section \<open>Builds with a variable digest size\<close>

text \<open>
  Under \<open>HASH_HAVE_VARIABLE_SIZE\<close> md5sum.c is b2sum, md6sum or sha3sum, the three builds
  that define \<open>algorithm_out_string\<close>. There \<open>digest_length\<close> (in bits) and
  \<open>digest_hex_bytes\<close> are variables: \<open>main\<close> sets them from the option \<open>-l\<close>,
  \<open>split_3\<close> sets them from the line it parses, and \<open>print_digest\<close> reads them. The
  pair (\<open>digest_length\<close>, \<open>digest_hex_bytes\<close>) is passed to the functions and returned by
  them. No operation on the two wraps around (they are compared, divided, or assigned a
  value of at most 512), so both are natural numbers.
\<close>

datatype variable_algo = BLAKE2B | MD6 | SHA3

fun DIGEST_TYPE_STRING_variable_size :: "variable_algo \<Rightarrow> string" where
  "DIGEST_TYPE_STRING_variable_size BLAKE2B = ''BLAKE2b''"
| "DIGEST_TYPE_STRING_variable_size MD6 = ''MD6''"
| "DIGEST_TYPE_STRING_variable_size SHA3 = ''SHA3''"

fun algorithm_out_string :: "variable_algo \<Rightarrow> string" where
  "algorithm_out_string BLAKE2B = ''BLAKE2b''"
| "algorithm_out_string MD6 = ''MD6''"
| "algorithm_out_string SHA3 = ''SHA3''"

fun MIN_DIGEST_LINE_LENGTH_variable_size :: "variable_algo \<Rightarrow> nat" where
  "MIN_DIGEST_LINE_LENGTH_variable_size BLAKE2B = 1 + 2 + 1"
| "MIN_DIGEST_LINE_LENGTH_variable_size MD6 = 1 + 2 + 1"
| "MIN_DIGEST_LINE_LENGTH_variable_size SHA3 = 28 + 2 + 1"

definition digest_max_len :: nat where
  "digest_max_len = 512 div 8"

subsection \<open>Library functions\<close>

text \<open>
  The functions of the C library and of gnulib that the variable-size branches call, by
  their documented behaviour in the C locale: \<open>isspace\<close>, \<open>ISDIGIT\<close>,
  \<open>printf ("%ju", n)\<close>, \<open>argmatch (arg, arglist, NULL, 0)\<close> and
  \<open>xstrtoul (s, NULL, 0, &val, NULL)\<close>.
\<close>

definition isspace :: "char \<Rightarrow> bool" where
  "isspace c = (c \<in> set [CHR '' '', CHR 0x09, CHR 0x0A, CHR 0x0B, CHR 0x0C, CHR 0x0D])"

definition ISDIGIT :: "char \<Rightarrow> bool" where
  "ISDIGIT c = (c \<in> set ''0123456789'')"

fun print_decimal :: "nat \<Rightarrow> string" where
  "print_decimal n =
     (if n < 10 then [char_of (48 + n)]
      else print_decimal (n div 10) @ [char_of (48 + n mod 10)])"

declare print_decimal.simps [simp del]

text \<open>
  \<open>argmatch\<close>: the index of the first element of \<open>arglist\<close> equal to \<open>arg\<close>; without
  one, the index of the only element that \<open>arg\<close> abbreviates, \<open>-1\<close> when there is none
  and \<open>-2\<close> when there are several.
\<close>

fun argmatch_from :: "string \<Rightarrow> string list \<Rightarrow> int \<Rightarrow> int \<Rightarrow> bool \<Rightarrow> int" where
  "argmatch_from arg [] i matchind ambiguous = (if ambiguous then - 2 else matchind)"
| "argmatch_from arg (a # arglist) i matchind ambiguous =
     (if take (length arg) a = arg then
        (if length a = length arg then i
         else if matchind = - 1 then argmatch_from arg arglist (i + 1) i ambiguous
         else argmatch_from arg arglist (i + 1) matchind True)
      else argmatch_from arg arglist (i + 1) matchind ambiguous)"

definition argmatch :: "string \<Rightarrow> string list \<Rightarrow> int" where
  "argmatch arg arglist = argmatch_from arg arglist 0 (- 1) False"

text \<open>
  The value of a character as a digit (36 when it is none), the digits that \<open>strtoul\<close>
  reads in a base, and their value, which has no bound before it is compared with
  \<open>ULONG_MAX\<close>.
\<close>

definition digit_value :: "char \<Rightarrow> nat" where
  "digit_value c = (let n = (of_char c :: nat) in
                    if 48 \<le> n \<and> n \<le> 57 then n - 48
                    else if 97 \<le> n \<and> n \<le> 122 then n - 87
                    else if 65 \<le> n \<and> n \<le> 90 then n - 55
                    else 36)"

definition strtoul_digits :: "nat \<Rightarrow> string \<Rightarrow> string" where
  "strtoul_digits base p = takeWhile (\<lambda>c. digit_value c < base) p"

definition strtoul_value :: "nat \<Rightarrow> string \<Rightarrow> int" where
  "strtoul_value base ds = foldl (\<lambda>v c. v * int base + int (digit_value c)) 0 ds"

definition ULONG_MAX :: int where
  "ULONG_MAX = 18446744073709551615"

text \<open>
  \<open>xstrtoul\<close> with base 0 and any suffix allowed: the value when the result is
  \<open>LONGINT_OK\<close>, and \<open>None\<close> otherwise (a minus sign, no digits, or a value above
  \<open>ULONG_MAX\<close>). White space and a plus sign may come first; \<open>0x\<close> before a hexadecimal
  digit selects base 16 and another leading \<open>0\<close> base 8.
\<close>

definition xstrtoul :: "string \<Rightarrow> int option" where
  "xstrtoul s =
     (let p = dropWhile isspace s in
      if cs p 0 = CHR ''-'' then None
      else
        let p1 = (if cs p 0 = CHR ''+'' then drop 1 p else p);
            hex = (cs p1 0 = CHR ''0'' \<and> (cs p1 1 = CHR ''x'' \<or> cs p1 1 = CHR ''X'')
                     \<and> digit_value (cs p1 2) < 16);
            base = (if hex then 16 else if cs p1 0 = CHR ''0'' then 8 else 10);
            ds = strtoul_digits base (if hex then drop 2 p1 else p1)
        in
        if ds = [] then None
        else if ULONG_MAX < strtoul_value base ds then None
        else Some (strtoul_value base ds))"

subsection \<open>The option \<open>-l\<close>\<close>

text \<open>
  \<open>main\<close>: the test of an argument of \<open>-l\<close>, the arguments in the order of the command
  line (\<open>digest_length\<close> is 0 before the first), and the values of \<open>digest_length\<close> and
  \<open>digest_hex_bytes\<close> after option parsing; \<open>None\<close> is \<open>die\<close>.
\<close>

definition length_option_valid :: "variable_algo \<Rightarrow> nat \<Rightarrow> bool" where
  "length_option_valid a digest_length =
     (if a = SHA3
      then \<not> (digest_length \<noteq> 224 \<and> digest_length \<noteq> 256
               \<and> digest_length \<noteq> 384 \<and> digest_length \<noteq> 512)
      else \<not> (digest_length mod 8 \<noteq> 0))"

fun length_options :: "variable_algo \<Rightarrow> nat list \<Rightarrow> nat \<Rightarrow> nat option" where
  "length_options a [] digest_length = Some digest_length"
| "length_options a (optarg # rest) digest_length =
     (if length_option_valid a optarg then length_options a rest optarg else None)"

definition main_digest_length :: "variable_algo \<Rightarrow> nat list \<Rightarrow> bool \<Rightarrow> (nat \<times> nat) option" where
  "main_digest_length a optargs do_check =
     (case length_options a optargs 0 of
        None \<Rightarrow> None
      | Some digest_length \<Rightarrow>
          if digest_length > digest_max_len * 8 then None
          else
            let digest_length' = (if digest_length = 0 \<and> \<not> do_check
                                  then digest_max_len * 8 else digest_length)
            in Some (digest_length', digest_length' div 4))"

subsection \<open>Checksum line codec\<close>

text \<open>
  \<open>while (s[i] != '\0' && !ISWHITE (s[i]) && s[i] != '-' && s[i] != '(') i++;\<close>
\<close>

definition skip_variants :: "string \<Rightarrow> nat \<Rightarrow> nat" where
  "skip_variants s i =
     i + length (takeWhile (\<lambda>c. c \<noteq> NUL \<and> \<not> ISWHITE c \<and> c \<noteq> CHR ''-'' \<and> c \<noteq> CHR ''('')
                   (drop i s))"

text \<open>
  The length suffix of a tagged line, read at index \<open>i\<close>: the new \<open>digest_length\<close> and
  the index behind the digits, or \<open>None\<close> when \<open>split_3\<close> returns false.
\<close>

definition length_suffix :: "string \<Rightarrow> nat \<Rightarrow> (nat \<times> nat) option" where
  "length_suffix s i =
     (case xstrtoul (drop i s) of
        None \<Rightarrow> None
      | Some tmp_ulong \<Rightarrow>
          if tmp_ulong > 0 \<and> tmp_ulong \<le> int (digest_max_len * 8) \<and> tmp_ulong mod 8 = 0
          then Some (nat tmp_ulong, i + length (takeWhile ISDIGIT (drop i s)))
          else None)"

text \<open>
  \<open>split_3\<close> as compiled under \<open>HASH_HAVE_VARIABLE_SIZE\<close>. The argument \<open>sizes\<close> is the
  pair (\<open>digest_length\<close>, \<open>digest_hex_bytes\<close>) on entry; the result holds what the
  function returns, \<open>bsd_reversed\<close> and the pair on return. A line that ends with the
  name of the algorithm makes the function read \<open>s[s_len + 1]\<close>, the byte behind the
  terminating NUL, which the line does not determine: the result is \<open>Inl\<close> then.
\<close>

definition split_3_variable_size ::
  "variable_algo \<Rightarrow> nat \<times> nat \<Rightarrow> int \<Rightarrow> string \<Rightarrow>
     string + ((string \<times> int option \<times> string) option \<times> int \<times> (nat \<times> nat))" where
  "split_3_variable_size a sizes bsd s =
     (let s_len = length s;
          i0 = skip_white s 0;
          escaped_filename = (cs s i0 = BACKSLASH);
          i = (if escaped_filename then i0 + 1 else i0);
          algo_name_len = length (DIGEST_TYPE_STRING_variable_size a)
      in
      if take algo_name_len (drop i s) = DIGEST_TYPE_STRING_variable_size a then
        (let j = skip_variants s (i + algo_name_len);
             length_specified = (cs s j = CHR ''-'');
             openssl_format = (cs s j = CHR ''('');
             s1 = s[j := NUL];
             algo_name = cstring (drop i s1)
         in
         if argmatch algo_name [algorithm_out_string a] < 0 then Inr (None, bsd, sizes)
         else if s_len < j + 1
         then Inl ''split_3 reads the byte behind the terminating NUL''
         else
           let s2 = (if openssl_format then s1[j := CHR ''(''] else s1);
               j1 = (if openssl_format then j else j + 1)
           in
           (case (if length_specified then length_suffix s2 j1
                  else Some (digest_max_len * 8, j1)) of
              None \<Rightarrow> Inr (None, bsd, sizes)
            | Some (digest_length, j2) \<Rightarrow>
                let sizes' = (digest_length, digest_length div 4);
                    j3 = (if cs s2 j2 = CHR '' '' then j2 + 1 else j2)
                in
                if cs s2 j3 = CHR ''(''
                then (case bsd_split_3 (digest_length div 4) (drop (j3 + 1) s2)
                             escaped_filename of
                        None \<Rightarrow> Inr (None, bsd, sizes')
                      | Some (hex_digest, file_name) \<Rightarrow>
                          Inr (Some (hex_digest, Some 0, file_name), bsd, sizes'))
                else Inr (None, bsd, sizes')))
      else if s_len - i
                < MIN_DIGEST_LINE_LENGTH_variable_size a + (if cs s i = BACKSLASH then 1 else 0)
      then Inr (None, bsd, sizes)
      else
        (let digest_hex_bytes = length (takeWhile isxdigit (drop i s)) in
         if digest_hex_bytes < 2 \<or> digest_hex_bytes mod 2 \<noteq> 0
              \<or> digest_max_len * 2 < digest_hex_bytes
         then Inr (None, bsd, (fst sizes, digest_hex_bytes))
         else
           let sizes' = (digest_hex_bytes * 4, digest_hex_bytes);
               k = i + digest_hex_bytes
           in
           if \<not> ISWHITE (cs s k) then Inr (None, bsd, sizes')
           else
             let s1 = s[k := NUL];
                 hex_digest = drop i s1;
                 k1 = k + 1;
                 result = (\<lambda>r. Inr (fst r, snd r, sizes'))
             in
             if \<not> hex_digits digest_hex_bytes hex_digest then Inr (None, bsd, sizes')
             else if s_len - k1 = 1 \<or> (cs s1 k1 \<noteq> CHR '' '' \<and> cs s1 k1 \<noteq> CHR ''*'') then
               (if bsd = 0 then Inr (None, bsd, sizes')
                else result (split_3_finish s1 k1 escaped_filename (cstring hex_digest) None 1))
             else if bsd \<noteq> 1 then
               result (split_3_finish s1 (k1 + 1) escaped_filename (cstring hex_digest)
                         (Some (if cs s1 k1 = CHR ''*'' then 1 else 0)) 0)
             else result (split_3_finish s1 k1 escaped_filename (cstring hex_digest) None bsd)))"

text \<open>
  \<open>print_digest\<close> as compiled under \<open>HASH_HAVE_VARIABLE_SIZE\<close>: the tag carries the
  length when it is below the maximum.
\<close>

definition print_digest_variable_size ::
  "variable_algo \<Rightarrow> config \<Rightarrow> nat \<times> nat \<Rightarrow> string \<Rightarrow> int \<Rightarrow> (nat \<Rightarrow> 8 word) \<Rightarrow> string" where
  "print_digest_variable_size a cfg sizes file file_is_binary bin_buffer =
     (let digest_length = fst sizes;
          digest_hex_bytes = snd sizes;
          needs_escape = ((BACKSLASH \<in> set file \<or> NEWLINE \<in> set file) \<and> delim cfg = NEWLINE)
      in
      (if prefix_tag cfg then
         (if needs_escape then [BACKSLASH] else []) @ algorithm_out_string a
           @ (if digest_length < digest_max_len * 8
              then CHR ''-'' # print_decimal digest_length else [])
           @ '' ('' @ print_filename file needs_escape @ '') = ''
       else [])
      @ (if \<not> prefix_tag cfg \<and> needs_escape then [BACKSLASH] else [])
      @ print_hex (digest_hex_bytes div 2) bin_buffer
      @ (if \<not> prefix_tag cfg then
           [CHR '' '', if file_is_binary \<noteq> 0 then CHR ''*'' else CHR '' '']
             @ print_filename file needs_escape
         else [])
      @ [delim cfg])"

section \<open>Verification engine\<close>

type_synonym uintmax_t = "64 word"

datatype errno = ENOENT | EOVERFLOW | EISDIR | Errno nat

text \<open>Diagnostics written by \<open>error\<close>; \<open>die\<close> is the result \<open>Inl\<close> of a function.\<close>

datatype diag =
    ErrFile errno string
  | ImproperlyFormatted string uintmax_t
  | ReadError string
  | NoProperlyFormattedLines string
  | WarnImproperlyFormatted uintmax_t
  | WarnNotRead uintmax_t
  | WarnNotMatched uintmax_t
  | NoFileVerified string
  | BadSymlink errno string
  | CannotAccess errno string
  | CannotOpenDirectory errno string
  | CannotDetermineDevIno errno string
  | AlreadyListed string
  | ClosingDirectory errno string
  | ReadingDirectory errno string

datatype event = Stdout string | Stderr diag

datatype fatal = TooManyChecksumLines string

text \<open>
  What the file system answers when \<open>digest_file\<close> works on one file: the result of
  \<open>fopen\<close> (\<open>None\<close> is success, otherwise \<open>errno\<close>), of \<open>DIGEST_STREAM\<close> (the digest
  written to the buffer, or \<open>errno\<close> when it returns nonzero) and of \<open>fclose\<close>.
\<close>

record file_env =
  fopen_result :: "errno option"
  stream_result :: "errno + (nat \<Rightarrow> 8 word)"
  fclose_result :: "errno option"

record digest_file_result =
  df_ok :: bool
  df_missing :: bool
  df_buffer :: "nat \<Rightarrow> 8 word"
  df_stdin :: bool
  df_errors :: "event list"

text \<open>
  \<open>digest_file\<close>. \<open>df_ok\<close> is the return value, \<open>df_missing\<close> is \<open>*missing\<close>,
  \<open>df_buffer\<close> is \<open>bin_buffer\<close> afterwards (a failed \<open>DIGEST_STREAM\<close> is taken to
  leave it as it was; no caller reads it then) and \<open>df_stdin\<close> says whether
  \<open>have_read_stdin\<close> was set.
\<close>

definition digest_file ::
  "config \<Rightarrow> file_env \<Rightarrow> string \<Rightarrow> (nat \<Rightarrow> 8 word) \<Rightarrow> digest_file_result" where
  "digest_file cfg fe filename bin_buffer =
     (let is_stdin = (filename = ''-'');
          fail = (\<lambda>es. \<lparr>df_ok = False, df_missing = False, df_buffer = bin_buffer,
                        df_stdin = is_stdin, df_errors = es\<rparr>)
      in
      if \<not> is_stdin \<and> fopen_result fe \<noteq> None then
        (if ignore_missing cfg \<and> fopen_result fe = Some ENOENT
         then \<lparr>df_ok = True, df_missing = True, df_buffer = bin_buffer,
               df_stdin = False, df_errors = []\<rparr>
         else fail [Stderr (ErrFile (the (fopen_result fe)) filename)])
      else
        (case stream_result fe of
           Inl e \<Rightarrow>
             fail (Stderr (ErrFile e filename) #
                   (if \<not> is_stdin \<and> fclose_result fe \<noteq> None
                    then [Stderr (ErrFile (the (fclose_result fe)) filename)] else []))
         | Inr d \<Rightarrow>
             if \<not> is_stdin \<and> fclose_result fe \<noteq> None
             then fail [Stderr (ErrFile (the (fclose_result fe)) filename)]
             else \<lparr>df_ok = True, df_missing = False, df_buffer = d,
                   df_stdin = is_stdin, df_errors = []\<rparr>))"

text \<open>The local variables of \<open>digest_check\<close> and the globals it changes.\<close>

record check_state =
  n_misformatted_lines :: uintmax_t
  n_improperly_formatted_lines :: uintmax_t
  n_mismatched_checksums :: uintmax_t
  n_open_or_read_failures :: uintmax_t
  properly_formatted_lines :: bool
  matched_checksums :: bool
  line_number :: uintmax_t
  bin_buffer :: "nat \<Rightarrow> 8 word"
  bsd_reversed :: int
  have_read_stdin :: bool
  events :: "event list"

text \<open>
  The comparison loop of \<open>digest_check\<close>: it leaves \<open>cnt = digest_bin_bytes\<close> exactly
  when every byte matches.
\<close>

definition digest_matches :: "nat \<Rightarrow> string \<Rightarrow> (nat \<Rightarrow> 8 word) \<Rightarrow> bool" where
  "digest_matches digest_bin_bytes hex_digest buf =
     list_all (\<lambda>cnt. tolower (cs hex_digest (2 * cnt)) = bin2hex ! unat (drop_bit 4 (buf cnt))
                    \<and> tolower (cs hex_digest (2 * cnt + 1)) = bin2hex ! unat (and (buf cnt) 0x0F))
       [0..<digest_bin_bytes]"

text \<open>
  The body of the loop of \<open>digest_check\<close> for a line that is not a comment, in three
  parts: the branch taken when \<open>split_3\<close> fails or the manifest on standard input names
  \<open>-\<close> (\<open>check_misformatted\<close>), the comparison of the digest with the line
  (\<open>check_compare\<close>), and the call of \<open>digest_file\<close> with what follows it
  (\<open>check_verify\<close>). The oracle \<open>files\<close> gives the answer of the file system for the
  file a line names; it takes the line number too, so that files may change while the
  manifest is read.
\<close>

definition check_misformatted :: "config \<Rightarrow> string \<Rightarrow> check_state \<Rightarrow> check_state" where
  "check_misformatted cfg checkfile_name st =
     st\<lparr>n_misformatted_lines := n_misformatted_lines st + 1,
        n_improperly_formatted_lines := n_improperly_formatted_lines st + 1,
        events := events st @
          (if warn cfg then [Stderr (ImproperlyFormatted checkfile_name (line_number st))]
           else [])\<rparr>"

definition check_compare :: "config \<Rightarrow> string \<Rightarrow> string \<Rightarrow> check_state \<Rightarrow> check_state" where
  "check_compare cfg hex_digest shown st =
     (let matched = digest_matches (DIGEST_HEX_BYTES (algo cfg) div 2) hex_digest (bin_buffer st);
          st1 = (if \<not> matched
                 then st\<lparr>n_mismatched_checksums := n_mismatched_checksums st + 1\<rparr>
                 else st\<lparr>matched_checksums := True\<rparr>)
      in
      if status_only cfg \<or> (matched \<and> quiet cfg) then st1
      else st1\<lparr>events := events st1 @
                  [Stdout (shown @ (if \<not> matched then '': FAILED'' else '': OK'')
                             @ [NEWLINE])]\<rparr>)"

definition check_verify ::
  "config \<Rightarrow> (uintmax_t \<Rightarrow> string \<Rightarrow> file_env) \<Rightarrow> check_state \<Rightarrow> string \<Rightarrow> string
     \<Rightarrow> check_state" where
  "check_verify cfg files st hex_digest filename =
     (let needs_escape = (\<not> status_only cfg \<and> NEWLINE \<in> set filename);
          shown = (if needs_escape then [BACKSLASH] else [])
                    @ print_filename filename needs_escape;
          r = digest_file cfg (files (line_number st) filename) filename (bin_buffer st);
          st1 = st\<lparr>properly_formatted_lines := True,
                   bin_buffer := df_buffer r,
                   have_read_stdin := (have_read_stdin st \<or> df_stdin r),
                   events := events st @ df_errors r\<rparr>
      in
      if \<not> df_ok r then
        st1\<lparr>n_open_or_read_failures := n_open_or_read_failures st1 + 1,
            events := events st1 @
              (if \<not> status_only cfg then [Stdout (shown @ '': FAILED open or read'' @ [NEWLINE])]
               else [])\<rparr>
      else if ignore_missing cfg \<and> df_missing r then st1
      else check_compare cfg hex_digest shown st1)"

definition digest_check_line ::
  "config \<Rightarrow> (uintmax_t \<Rightarrow> string \<Rightarrow> file_env) \<Rightarrow> bool \<Rightarrow> string \<Rightarrow> check_state \<Rightarrow> string
     \<Rightarrow> check_state" where
  "digest_check_line cfg files is_stdin checkfile_name st raw =
     (let line = (if last raw = NEWLINE then butlast raw else raw);
          parsed = split_3 (algo cfg) (bsd_reversed st) line;
          st1 = st\<lparr>bsd_reversed := snd parsed\<rparr>
      in
      case fst parsed of
        None \<Rightarrow> check_misformatted cfg checkfile_name st1
      | Some (hex_digest, binary, filename) \<Rightarrow>
          if is_stdin \<and> filename = ''-''
          then check_misformatted cfg checkfile_name st1
          else check_verify cfg files st1 hex_digest filename)"

text \<open>
  \<open>getline\<close> on the bytes that remain in the stream: \<open>None\<close> when nothing is left,
  otherwise the line, with its newline when it has one, and the rest.
\<close>

definition getline :: "string \<Rightarrow> (string \<times> string) option" where
  "getline content =
     (if content = [] then None
      else let n = length (takeWhile (\<lambda>c. c \<noteq> NEWLINE) content)
           in Some (take (Suc n) content, drop (Suc n) content))"

text \<open>
  The \<open>do ... while (!feof (checkfile_stream) && !ferror (checkfile_stream))\<close> loop. A line
  that ends with a newline leaves neither flag set; a line without one was ended by the
  end of the file or by a read error.
\<close>

function digest_check_loop ::
  "config \<Rightarrow> (uintmax_t \<Rightarrow> string \<Rightarrow> file_env) \<Rightarrow> bool \<Rightarrow> string \<Rightarrow> check_state \<Rightarrow> string
     \<Rightarrow> fatal + check_state" where
  "digest_check_loop cfg files is_stdin checkfile_name st content =
     (if line_number st + 1 = 0 then Inl (TooManyChecksumLines checkfile_name)
      else
        (case getline content of
           None \<Rightarrow> Inr (st\<lparr>line_number := line_number st + 1\<rparr>)
         | Some (line, rest) \<Rightarrow>
             if hd line = CHR ''#''
             then (if last line = NEWLINE
                   then digest_check_loop cfg files is_stdin checkfile_name
                          (st\<lparr>line_number := line_number st + 1\<rparr>) rest
                   else Inr (st\<lparr>line_number := line_number st + 1\<rparr>))
             else (if last line = NEWLINE
                   then digest_check_loop cfg files is_stdin checkfile_name
                          (digest_check_line cfg files is_stdin checkfile_name
                             (st\<lparr>line_number := line_number st + 1\<rparr>) line) rest
                   else Inr (digest_check_line cfg files is_stdin checkfile_name
                               (st\<lparr>line_number := line_number st + 1\<rparr>) line))))"
  by pat_completeness auto
termination
  by (relation "measure (\<lambda>(cfg, files, is_stdin, checkfile_name, st, content). length content)")
     (auto simp: getline_def Let_def split: if_splits)

text \<open>
  The manifest as the C library presents it: the result of \<open>fopen\<close>, the bytes that can
  be read, whether reading ends with an error instead of the end of the file, and the
  result of \<open>fclose\<close>.
\<close>

record manifest =
  m_fopen :: "errno option"
  m_content :: string
  m_read_error :: bool
  m_fclose :: "errno option"

definition check_summary :: "config \<Rightarrow> string \<Rightarrow> check_state \<Rightarrow> event list" where
  "check_summary cfg checkfile_name st =
     (if \<not> properly_formatted_lines st
      then [Stderr (NoProperlyFormattedLines checkfile_name)]
      else if \<not> status_only cfg then
        (if n_misformatted_lines st \<noteq> 0
         then [Stderr (WarnImproperlyFormatted (n_misformatted_lines st))] else [])
        @ (if n_open_or_read_failures st \<noteq> 0
           then [Stderr (WarnNotRead (n_open_or_read_failures st))] else [])
        @ (if n_mismatched_checksums st \<noteq> 0
           then [Stderr (WarnNotMatched (n_mismatched_checksums st))] else [])
        @ (if ignore_missing cfg \<and> \<not> matched_checksums st
           then [Stderr (NoFileVerified checkfile_name)] else [])
      else [])"

text \<open>
  \<open>digest_check\<close>. \<open>bsd0\<close> and \<open>stdin0\<close> are the globals \<open>bsd_reversed\<close> and
  \<open>have_read_stdin\<close> on entry, \<open>buf0\<close> is the content of the uninitialised local
  \<open>bin_buffer\<close>. The result is \<open>Inl\<close> when the program dies, and otherwise the return
  value with the final values of the variables.
\<close>

definition digest_check ::
  "config \<Rightarrow> (uintmax_t \<Rightarrow> string \<Rightarrow> file_env) \<Rightarrow> manifest \<Rightarrow> int \<Rightarrow> bool \<Rightarrow> (nat \<Rightarrow> 8 word)
     \<Rightarrow> string \<Rightarrow> fatal + (bool \<times> check_state)" where
  "digest_check cfg files m bsd0 stdin0 buf0 name =
     (let is_stdin = (name = ''-'');
          checkfile_name = (if is_stdin then ''standard input'' else name);
          st0 = \<lparr>n_misformatted_lines = 0, n_improperly_formatted_lines = 0,
                 n_mismatched_checksums = 0, n_open_or_read_failures = 0,
                 properly_formatted_lines = False, matched_checksums = False,
                 line_number = 0, bin_buffer = buf0, bsd_reversed = bsd0,
                 have_read_stdin = (stdin0 \<or> is_stdin), events = []\<rparr>
      in
      if \<not> is_stdin \<and> m_fopen m \<noteq> None
      then Inr (False, st0\<lparr>events := [Stderr (ErrFile (the (m_fopen m)) checkfile_name)]\<rparr>)
      else
        (case digest_check_loop cfg files is_stdin checkfile_name st0 (m_content m) of
           Inl f \<Rightarrow> Inl f
         | Inr st \<Rightarrow>
             if m_read_error m
             then Inr (False, st\<lparr>events := events st @ [Stderr (ReadError checkfile_name)]\<rparr>)
             else if \<not> is_stdin \<and> m_fclose m \<noteq> None
             then Inr (False, st\<lparr>events := events st
                                    @ [Stderr (ErrFile (the (m_fclose m)) checkfile_name)]\<rparr>)
             else
               Inr (properly_formatted_lines st
                      \<and> matched_checksums st
                      \<and> n_mismatched_checksums st = 0
                      \<and> n_open_or_read_failures st = 0
                      \<and> (\<not> strict cfg \<or> n_improperly_formatted_lines st = 0),
                    st\<lparr>events := events st @ check_summary cfg checkfile_name st\<rparr>)))"

section \<open>File inventory, cycle guard and traversal\<close>

subsection \<open>Data\<close>

datatype filetype = unknown | regular_file | directory | arg_directory

text \<open>The file type bits of \<open>st_mode\<close>, as far as \<open>S_ISDIR\<close> and \<open>S_ISLNK\<close> read them.\<close>

datatype file_mode = S_IFREG | S_IFDIR | S_IFLNK | S_IFOTHER

record stat =
  st_dev :: nat
  st_ino :: nat
  st_mode :: file_mode

text \<open>
  A \<open>char *\<close>: the null pointer, a pointer to a string, or a pointer that must not be
  used (freed, or read from memory that was never written).
\<close>

datatype cptr = Null | Ptr string | Invalid

record fileinfo =
  f_name :: cptr
  f_linkname :: cptr
  f_stat :: stat
  f_filetype :: filetype
  f_stat_ok :: bool

record pending =
  p_name :: "string option"
  p_realname :: "string option"
  p_command_line_arg :: bool

text \<open>
  What \<open>readdir\<close> returns, call after call, until it returns \<open>NULL\<close> with \<open>errno\<close>
  unchanged: an entry (\<open>d_name\<close>, and whether \<open>d_type\<close> is \<open>DT_DIR\<close>) or a failure.
\<close>

datatype readdir_result = Entry string bool | ReaddirError errno

record dirstream =
  ds_stat :: "errno + stat"
  ds_entries :: "readdir_result list"
  ds_closedir :: "errno option"

text \<open>
  The environment of a run: the file system as the system calls present it (it does not
  change during the run), \<open>fnmatch\<close> with \<open>FNM_PERIOD\<close>, gnulib's
  \<open>file_name_concat\<close>, which is not part of the sources at hand, and the content of
  memory that \<open>malloc\<close> returns, slot by slot of \<open>cwd_file\<close>.
\<close>

record fs_env =
  fs_stat :: "string \<Rightarrow> errno + stat"
  fs_lstat :: "string \<Rightarrow> errno + stat"
  fs_opendir :: "string \<Rightarrow> errno + dirstream"
  fs_getcwd :: "64 word \<Rightarrow> errno option"
  fs_digest :: "string \<Rightarrow> file_env"
  fs_fnmatch :: "string \<Rightarrow> string \<Rightarrow> bool"
  fs_file_name_concat :: "string \<Rightarrow> string \<Rightarrow> string"
  fs_uninit :: "nat \<Rightarrow> fileinfo"

text \<open>
  The globals of the traversal. \<open>active_dir_set\<close> is \<open>None\<close> while the pointer is
  \<open>NULL\<close>; the hash table compares entries with \<open>SAME_INODE\<close>, so it is a set of
  (device, inode) pairs. \<open>dev_ino_obstack\<close> is the stack of pairs, top first.
  \<open>emitted\<close> collects what is written to standard output and standard error.
\<close>

record trav_state =
  cwd_file :: "fileinfo list"
  cwd_n_used :: nat
  pending_dirs :: "pending list"
  active_dir_set :: "(nat \<times> nat) set option"
  dev_ino_obstack :: "(nat \<times> nat) list"
  dot_st :: stat
  dot_dot_st :: stat
  missing :: bool
  stdin_read :: bool
  file_is_binary :: int
  digest_buffer :: "nat \<Rightarrow> 8 word"
  emitted :: "event list"

text \<open>
  How a function ends other than by returning: \<open>die\<close>, a failed \<open>assert\<close>, or a step
  whose behaviour C leaves undefined. \<open>OutOfFuel\<close> is the result of a recursion that was
  given too few steps.
\<close>

text \<open>
  The assertions of the traversal: \<open>dev_ino_size <= obstack_object_size (&dev_ino_obstack)\<close>
  in \<open>dev_ino_pop\<close>, \<open>found != NULL\<close> and
  \<open>hash_get_n_entries (active_dir_set) == 0\<close> in \<open>main\<close>, and
  \<open>!command_line_arg || inode == NOT_AN_INODE_NUMBER\<close> and \<open>command_line_arg\<close> in
  \<open>gobble_file\<close>.
\<close>

datatype assertion =
    ObstackHoldsPair
  | FoundNotNull
  | TableEmpty
  | InodeOfArgument
  | DashIsArgument

datatype stop = Died diag | AssertionFailed assertion | Undefined string

datatype 'a outcome = Done 'a | Stopped stop | OutOfFuel

definition NOT_AN_INODE_NUMBER :: nat where "NOT_AN_INODE_NUMBER = 0"

definition PATH_MAX :: nat where "PATH_MAX = 4096"

definition LOOP_DETECT :: "trav_state \<Rightarrow> bool" where
  "LOOP_DETECT st = (active_dir_set st \<noteq> None)"

definition cwd_n_alloc :: "trav_state \<Rightarrow> nat" where
  "cwd_n_alloc st = length (cwd_file st)"

definition emit :: "diag \<Rightarrow> trav_state \<Rightarrow> trav_state" where
  "emit d st = st\<lparr>emitted := emitted st @ [Stderr d]\<rparr>"

subsection \<open>Cycle guard\<close>

definition dev_ino_push :: "nat \<Rightarrow> nat \<Rightarrow> trav_state \<Rightarrow> trav_state" where
  "dev_ino_push dev ino st = st\<lparr>dev_ino_obstack := (dev, ino) # dev_ino_obstack st\<rparr>"

text \<open>\<open>dev_ino_pop\<close>: the assertion is that the obstack holds at least one pair.\<close>

definition dev_ino_pop :: "trav_state \<Rightarrow> ((nat \<times> nat) \<times> trav_state) outcome" where
  "dev_ino_pop st =
     (case dev_ino_obstack st of
        [] \<Rightarrow> Stopped (AssertionFailed ObstackHoldsPair)
      | di # rest \<Rightarrow> Done (di, st\<lparr>dev_ino_obstack := rest\<rparr>))"

text \<open>
  \<open>visit_dir\<close>: the result says whether a matching entry was already in the table. It is
  called only when \<open>active_dir_set\<close> is not \<open>NULL\<close>.
\<close>

definition visit_dir :: "nat \<Rightarrow> nat \<Rightarrow> trav_state \<Rightarrow> bool \<times> trav_state" where
  "visit_dir device inode st =
     (case active_dir_set st of
        None \<Rightarrow> (False, st)
      | Some table \<Rightarrow>
          if (device, inode) \<in> table then (True, st)
          else (False, st\<lparr>active_dir_set := Some (insert (device, inode) table)\<rparr>))"

subsection \<open>File inventory\<close>

definition free_ptr :: "cptr \<Rightarrow> cptr option" where
  "free_ptr p = (case p of Null \<Rightarrow> Some Null | Ptr s \<Rightarrow> Some Invalid | Invalid \<Rightarrow> None)"

text \<open>\<open>free_ent\<close>: \<open>None\<close> when it frees a pointer that must not be used.\<close>

definition free_ent :: "fileinfo \<Rightarrow> fileinfo option" where
  "free_ent f =
     (case (free_ptr (f_name f), free_ptr (f_linkname f)) of
        (Some n, Some l) \<Rightarrow> Some (f\<lparr>f_name := n, f_linkname := l\<rparr>)
      | _ \<Rightarrow> None)"

fun free_ents :: "fileinfo list \<Rightarrow> fileinfo list option" where
  "free_ents [] = Some []"
| "free_ents (f # fs) =
     (case free_ent f of
        None \<Rightarrow> None
      | Some f' \<Rightarrow> (case free_ents fs of None \<Rightarrow> None | Some fs' \<Rightarrow> Some (f' # fs')))"

definition clear_files :: "trav_state \<Rightarrow> trav_state outcome" where
  "clear_files st =
     (if length (cwd_file st) < cwd_n_used st
      then Stopped (Undefined ''cwd_file read outside the allocated block'')
      else
        (case free_ents (take (cwd_n_used st) (cwd_file st)) of
           None \<Rightarrow> Stopped (Undefined ''free of an invalid pointer'')
         | Some fs \<Rightarrow>
             Done (st\<lparr>cwd_file := fs @ drop (cwd_n_used st) (cwd_file st), cwd_n_used := 0\<rparr>)))"

definition patterns_match :: "fs_env \<Rightarrow> string list \<Rightarrow> string \<Rightarrow> bool" where
  "patterns_match env patterns file = list_ex (\<lambda>p. fs_fnmatch env p file) patterns"

definition file_ignored :: "config \<Rightarrow> fs_env \<Rightarrow> string \<Rightarrow> bool" where
  "file_ignored cfg env file =
     ((ignore_mode cfg \<noteq> IGNORE_MINIMAL
         \<and> cs file 0 = CHR ''.''
         \<and> (ignore_mode cfg = IGNORE_DEFAULT
              \<or> cs file (1 + (if cs file 1 = CHR ''.'' then 1 else 0)) = NUL))
      \<or> (ignore_mode cfg = IGNORE_DEFAULT \<and> patterns_match env (hide_patterns cfg) file)
      \<or> patterns_match env (ignore_patterns cfg) file)"

definition dot_or_dotdot :: "string \<Rightarrow> bool" where
  "dot_or_dotdot filename =
     (if cs filename 0 = CHR ''.'' then
        (let sep = (if cs filename 1 = CHR ''.'' then 2 else 1)
         in cs filename sep = NUL \<or> (cs filename sep = CHR ''/'' \<and> cs filename (sep + 1) = NUL))
      else False)"

definition basename_is_dot :: "string \<Rightarrow> bool" where
  "basename_is_dot nm =
     (if cs nm 0 = CHR ''.''
      then cs nm 1 = NUL \<or> (cs nm 1 = CHR ''/'' \<and> cs nm 2 = NUL)
      else False)"

text \<open>\<open>attach\<close>: the string left in \<open>dest\<close>.\<close>

definition attach :: "string \<Rightarrow> string \<Rightarrow> bool \<Rightarrow> string" where
  "attach dirname nm force =
     (if cs nm 0 = CHR ''/'' \<or> cs dirname 0 = NUL then nm
      else
        (if force \<or> \<not> basename_is_dot dirname
         then dirname @ (if last dirname \<noteq> CHR ''/'' then ''/'' else [])
         else [])
        @ nm)"

definition is_directory :: "fileinfo \<Rightarrow> bool" where
  "is_directory f = (f_filetype f = directory \<or> f_filetype f = arg_directory)"

definition zero_stat :: stat where
  "zero_stat = \<lparr>st_dev = 0, st_ino = 0, st_mode = S_IFOTHER\<rparr>"

text \<open>A slot after \<open>memset (f, 0, sizeof (*f))\<close>.\<close>

definition zero_fileinfo :: fileinfo where
  "zero_fileinfo =
     \<lparr>f_name = Null, f_linkname = Null, f_stat = zero_stat,
      f_filetype = unknown, f_stat_ok = False\<rparr>"

text \<open>
  \<open>gobble_file\<close>. The slot \<open>cwd_file[cwd_n_used]\<close> is written before the function
  decides whether the entry is kept, so an entry that is dropped leaves its traces in the
  slot behind the inventory. \<open>xnrealloc\<close> is taken to succeed; the slots it adds hold
  whatever \<open>fs_uninit\<close> says.
\<close>

definition gobble_file ::
  "config \<Rightarrow> fs_env \<Rightarrow> string \<Rightarrow> filetype \<Rightarrow> nat \<Rightarrow> bool \<Rightarrow> string \<Rightarrow> trav_state
     \<Rightarrow> trav_state outcome" where
  "gobble_file cfg env nm type inode command_line_arg dirname st =
     (if \<not> command_line_arg \<and> file_ignored cfg env nm then Done st
      else if command_line_arg \<and> inode \<noteq> NOT_AN_INODE_NUMBER
      then Stopped (AssertionFailed InodeOfArgument)
      else
        (let n = cwd_n_used st;
             block = (if n = cwd_n_alloc st
                      then cwd_file st
                             @ map (fs_uninit env) [cwd_n_alloc st ..< 2 * cwd_n_alloc st]
                      else cwd_file st);
             f = zero_fileinfo\<lparr>f_stat := (f_stat zero_fileinfo)\<lparr>st_ino := inode\<rparr>,
                                f_filetype := type\<rparr>;
             slot = (\<lambda>g. st\<lparr>cwd_file := block[n := g]\<rparr>)
         in
         if length block \<le> n
         then Stopped (Undefined ''cwd_file written outside the allocated block'')
         else if nm = ''-'' \<and> cs dirname 0 = NUL then
           (if \<not> command_line_arg then Stopped (AssertionFailed DashIsArgument)
            else Done ((slot (f\<lparr>f_name := Ptr ''-'', f_filetype := regular_file,
                                f_stat_ok := True\<rparr>))\<lparr>cwd_n_used := n + 1\<rparr>))
         else
           (let full_name = (if cs nm 0 = CHR ''/'' \<or> cs dirname 0 = NUL then nm
                             else attach dirname nm False);
                cannot_access = (\<lambda>e1 f1.
                  if \<not> command_line_arg
                  then Done ((emit (CannotAccess e1 full_name)
                                (slot (f1\<lparr>f_name := Ptr full_name\<rparr>)))\<lparr>cwd_n_used := n + 1\<rparr>)
                  else Done (emit (CannotAccess e1 full_name) (slot f1)))
            in
            case fs_stat env full_name of
              Inl e \<Rightarrow>
                (case fs_lstat env full_name of
                   Inr ls \<Rightarrow>
                     if st_mode ls = S_IFLNK
                     then Done (emit (BadSymlink e full_name) (slot (f\<lparr>f_stat := ls\<rparr>)))
                     else cannot_access e (f\<lparr>f_stat := ls\<rparr>)
                 | Inl e' \<Rightarrow> cannot_access e' f)
            | Inr s \<Rightarrow>
                (let f1 = f\<lparr>f_stat := s, f_stat_ok := True\<rparr> in
                 if st_mode s = S_IFDIR then
                   (if \<not> recursive cfg
                    then Done (emit (ErrFile EISDIR full_name) (slot f1))
                    else Done ((slot (f1\<lparr>f_filetype := (if command_line_arg then arg_directory
                                                          else directory),
                                         f_name := Ptr full_name\<rparr>))\<lparr>cwd_n_used := n + 1\<rparr>))
                 else Done ((slot (f1\<lparr>f_filetype := regular_file,
                                      f_name := Ptr full_name\<rparr>))\<lparr>cwd_n_used := n + 1\<rparr>)))))"

subsection \<open>Traversal scheduler\<close>

text \<open>
  \<open>queue_directory\<close>: \<open>xstrdup\<close> of a pointer that must not be used is undefined; a
  null \<open>name\<close> makes the new node a marker.
\<close>

definition queue_directory :: "cptr \<Rightarrow> cptr \<Rightarrow> bool \<Rightarrow> trav_state \<Rightarrow> trav_state outcome" where
  "queue_directory nm realname command_line_arg st =
     (if nm = Invalid \<or> realname = Invalid
      then Stopped (Undefined ''xstrdup of an invalid pointer'')
      else Done (st\<lparr>pending_dirs :=
                      \<lparr>p_name = (case nm of Ptr s \<Rightarrow> Some s | _ \<Rightarrow> None),
                       p_realname = (case realname of Ptr s \<Rightarrow> Some s | _ \<Rightarrow> None),
                       p_command_line_arg = command_line_arg\<rparr> # pending_dirs st\<rparr>))"

text \<open>\<open>is_dot_or_dotdot\<close>: its \<open>stat\<close> overwrites the copy of the argument \<open>st\<close>.\<close>

definition is_dot_or_dotdot :: "fs_env \<Rightarrow> trav_state \<Rightarrow> string \<Rightarrow> bool outcome" where
  "is_dot_or_dotdot env st dirname =
     (case fs_stat env dirname of
        Inl e \<Rightarrow> Stopped (Died (ErrFile e dirname))
      | Inr s \<Rightarrow>
          Done ((st_dev s = st_dev (dot_st st) \<and> st_ino s = st_ino (dot_st st))
                \<or> (st_dev s = st_dev (dot_dot_st st) \<and> st_ino s = st_ino (dot_dot_st st))))"

text \<open>
  The body of the loop of \<open>extract_dirs_from_files\<close> for the slot \<open>cwd_file + i\<close>.
  Reading a slot outside the allocated block, and using a pointer that must not be
  used, are undefined.
\<close>

definition extract_slot ::
  "fs_env \<Rightarrow> string option \<Rightarrow> bool \<Rightarrow> nat \<Rightarrow> trav_state \<Rightarrow> trav_state outcome" where
  "extract_slot env dirname command_line_arg i st =
     (if length (cwd_file st) \<le> i
      then Stopped (Undefined ''cwd_file read outside the allocated block'')
      else
        (let f = cwd_file st ! i in
         if \<not> is_directory f then Done st
         else
           (case (if dirname = None then Done False
                  else (case f_name f of
                          Ptr s \<Rightarrow> is_dot_or_dotdot env st s
                        | _ \<Rightarrow> Stopped (Undefined ''stat of an invalid file name''))) of
              Stopped r \<Rightarrow> Stopped r
            | OutOfFuel \<Rightarrow> OutOfFuel
            | Done True \<Rightarrow> Done st
            | Done False \<Rightarrow>
                (case (case dirname of
                         None \<Rightarrow> queue_directory (f_name f) (f_linkname f) command_line_arg st
                       | Some d \<Rightarrow>
                           (case f_name f of
                              Ptr s \<Rightarrow>
                                if cs s 0 = CHR ''/''
                                then queue_directory (f_name f) (f_linkname f) command_line_arg st
                                else queue_directory (Ptr (fs_file_name_concat env d s))
                                       (f_linkname f) command_line_arg st
                            | _ \<Rightarrow> Stopped (Undefined ''read through an invalid file name''))) of
                   Done st1 \<Rightarrow>
                     if f_filetype f = arg_directory then
                       (case free_ent f of
                          None \<Rightarrow> Stopped (Undefined ''free of an invalid pointer'')
                        | Some f' \<Rightarrow>
                            Done (st1\<lparr>cwd_file := (cwd_file st1)[i := f'],
                                      cwd_n_used := cwd_n_used st1 - 1\<rparr>))
                     else Done st1
                 | other \<Rightarrow> other))))"

text \<open>\<open>for (size_t i = cwd_n_used; i != 0; i--)\<close>, entered with \<open>i\<close>.\<close>

fun extract_loop ::
  "fs_env \<Rightarrow> string option \<Rightarrow> bool \<Rightarrow> nat \<Rightarrow> trav_state \<Rightarrow> trav_state outcome" where
  "extract_loop env dirname command_line_arg 0 st = Done st"
| "extract_loop env dirname command_line_arg (Suc j) st =
     (case extract_slot env dirname command_line_arg (Suc j) st of
        Done st1 \<Rightarrow> extract_loop env dirname command_line_arg j st1
      | other \<Rightarrow> other)"

definition extract_dirs_from_files ::
  "fs_env \<Rightarrow> string option \<Rightarrow> bool \<Rightarrow> trav_state \<Rightarrow> trav_state outcome" where
  "extract_dirs_from_files env dirname command_line_arg st =
     (case (if dirname \<noteq> None \<and> LOOP_DETECT st
            then queue_directory Null (case dirname of Some d \<Rightarrow> Ptr d | None \<Rightarrow> Null) False st
            else Done st) of
        Done st1 \<Rightarrow> extract_loop env dirname command_line_arg (cwd_n_used st1) st1
      | other \<Rightarrow> other)"

text \<open>
  The part of \<open>digest_directory\<close> under \<open>if (LOOP_DETECT)\<close>, with the \<open>closedir\<close> of
  its two early returns: the first component says whether the function goes on.
\<close>

definition closedir_report :: "dirstream \<Rightarrow> string \<Rightarrow> trav_state \<Rightarrow> trav_state" where
  "closedir_report ds dirname st =
     (case ds_closedir ds of None \<Rightarrow> st | Some e \<Rightarrow> emit (ClosingDirectory e dirname) st)"

definition loop_detect :: "dirstream \<Rightarrow> string \<Rightarrow> trav_state \<Rightarrow> bool \<times> trav_state" where
  "loop_detect ds dirname st =
     (if \<not> LOOP_DETECT st then (True, st)
      else
        (case ds_stat ds of
           Inl e \<Rightarrow> (False, closedir_report ds dirname (emit (CannotDetermineDevIno e dirname) st))
         | Inr s \<Rightarrow>
             (let (found_match, st1) = visit_dir (st_dev s) (st_ino s) st in
              if found_match
              then (False, closedir_report ds dirname (emit (AlreadyListed dirname) st1))
              else (True, dev_ino_push (st_dev s) (st_ino s) st1))))"

text \<open>
  The body of the loop of \<open>digest_current_files\<close> for an entry that is not a directory:
  \<open>digest_file\<close>, and \<open>print_digest\<close> when it returns true.
\<close>

definition digest_entry :: "config \<Rightarrow> fs_env \<Rightarrow> string \<Rightarrow> trav_state \<Rightarrow> trav_state" where
  "digest_entry cfg env file st =
     (let r = digest_file cfg (fs_digest env file) file (digest_buffer st);
          st1 = st\<lparr>missing := df_missing r, digest_buffer := df_buffer r,
                   stdin_read := (stdin_read st \<or> df_stdin r),
                   emitted := emitted st @ df_errors r\<rparr>
      in
      if df_ok r
      then st1\<lparr>emitted := emitted st1
                  @ [Stdout (print_digest cfg file (file_is_binary st1) (digest_buffer st1))]\<rparr>
      else st1)"

text \<open>
  \<open>digest_directory\<close>, its \<open>while (true)\<close> loop over the entries that \<open>readdir\<close>
  returns (\<open>read_directory\<close>), and \<open>digest_current_files\<close> from the index \<open>i\<close> of its
  loop on. The three call each other; the first argument bounds the number of calls and
  loop rounds, and \<open>OutOfFuel\<close> is the result when the bound is reached. No signal is
  pending, so \<open>process_signals\<close> does nothing. The argument of \<open>fs_getcwd\<close> is the
  size passed to \<open>getcwd\<close>, computed in \<open>size_t\<close>.
\<close>

function digest_directory ::
  "nat \<Rightarrow> config \<Rightarrow> fs_env \<Rightarrow> string \<Rightarrow> trav_state \<Rightarrow> trav_state outcome"
and read_directory ::
  "nat \<Rightarrow> config \<Rightarrow> fs_env \<Rightarrow> string \<Rightarrow> readdir_result list \<Rightarrow> trav_state \<Rightarrow> trav_state outcome"
and digest_current_files ::
  "nat \<Rightarrow> config \<Rightarrow> fs_env \<Rightarrow> nat \<Rightarrow> trav_state \<Rightarrow> trav_state outcome"
where
  "digest_directory 0 cfg env dirname st = OutOfFuel"
| "digest_directory (Suc n) cfg env dirname st =
     (case fs_opendir env dirname of
        Inl e \<Rightarrow>
          if ignore_missing cfg \<and> e = ENOENT then Done (st\<lparr>missing := True\<rparr>)
          else Done (emit (CannotOpenDirectory e dirname) st)
      | Inr ds \<Rightarrow>
          (case loop_detect ds dirname st of
             (False, st1) \<Rightarrow> Done st1
           | (True, st1) \<Rightarrow>
               (case clear_files st1 of
                  Done st2 \<Rightarrow>
                    (case read_directory n cfg env dirname (ds_entries ds) st2 of
                       Done st3 \<Rightarrow>
                         (case (if recursive cfg
                                then extract_dirs_from_files env (Some dirname) False
                                       (closedir_report ds dirname st3)
                                else Done (closedir_report ds dirname st3)) of
                            Done st4 \<Rightarrow>
                              if cwd_n_used st4 \<noteq> 0 then digest_current_files n cfg env 0 st4
                              else Done st4
                          | other \<Rightarrow> other)
                     | other \<Rightarrow> other)
                | other \<Rightarrow> other)))"
| "read_directory 0 cfg env dirname ents st = OutOfFuel"
| "read_directory (Suc n) cfg env dirname [] st = Done st"
| "read_directory (Suc n) cfg env dirname (ReaddirError e # ents) st =
     (if e \<noteq> EOVERFLOW then Done (emit (ReadingDirectory e dirname) st)
      else read_directory n cfg env dirname ents (emit (ReadingDirectory e dirname) st))"
| "read_directory (Suc n) cfg env dirname (Entry d_name is_dir # ents) st =
     (if dot_or_dotdot d_name \<or> file_ignored cfg env d_name
      then read_directory n cfg env dirname ents st
      else
        (case gobble_file cfg env d_name (if is_dir then directory else regular_file)
                NOT_AN_INODE_NUMBER False dirname st of
           Done st1 \<Rightarrow>
             (case digest_current_files n cfg env 0 st1 of
                Done st2 \<Rightarrow> read_directory n cfg env dirname ents st2
              | other \<Rightarrow> other)
         | other \<Rightarrow> other))"
| "digest_current_files 0 cfg env i st = OutOfFuel"
| "digest_current_files (Suc n) cfg env i st =
     (if i < cwd_n_used st then
        (if length (cwd_file st) \<le> i
         then Stopped (Undefined ''cwd_file read outside the allocated block'')
         else
           (case f_name (cwd_file st ! i) of
              Ptr file \<Rightarrow>
                if is_directory (cwd_file st ! i) then
                  (if \<not> recursive cfg
                   then digest_current_files n cfg env (i + 1) (emit (ErrFile EISDIR file) st)
                   else
                     (case fs_getcwd env (of_nat PATH_MAX - of_nat (length file) - 1 - 1) of
                        Some e \<Rightarrow> digest_current_files n cfg env (i + 1) (emit (ErrFile e file) st)
                      | None \<Rightarrow>
                          if PATH_MAX < length (attach file [] True) + 1
                          then Stopped (Undefined ''full_dirname written past its end'')
                          else
                            (case digest_directory n cfg env (attach file [] True) st of
                               Done st1 \<Rightarrow> digest_current_files n cfg env (i + 1) st1
                             | other \<Rightarrow> other)))
                else digest_current_files n cfg env (i + 1) (digest_entry cfg env file st)
            | _ \<Rightarrow> Stopped (Undefined ''read through an invalid file name'')))
      else clear_files st)"
  by pat_completeness auto
termination
  by (relation "measure (\<lambda>x. case x of
                           Inl (n, _) \<Rightarrow> n
                         | Inr (Inl (n, _)) \<Rightarrow> n
                         | Inr (Inr (n, _)) \<Rightarrow> n)") auto

text \<open>
  The loop \<open>while (pending_dirs != NULL)\<close> of \<open>main\<close>. A node without a name is a
  marker when \<open>LOOP_DETECT\<close> holds; \<open>digest_directory (NULL, ...)\<close> is undefined.
\<close>

definition dequeue_marker :: "trav_state \<Rightarrow> trav_state outcome" where
  "dequeue_marker st =
     (case dev_ino_pop st of
        Done (di, st1) \<Rightarrow>
          (case active_dir_set st1 of
             None \<Rightarrow> Stopped (Undefined ''hash_delete on a null table'')
           | Some table \<Rightarrow>
               if di \<in> table then Done (st1\<lparr>active_dir_set := Some (table - {di})\<rparr>)
               else Stopped (AssertionFailed FoundNotNull))
      | Stopped r \<Rightarrow> Stopped r
      | OutOfFuel \<Rightarrow> OutOfFuel)"

fun pending_loop :: "nat \<Rightarrow> config \<Rightarrow> fs_env \<Rightarrow> trav_state \<Rightarrow> trav_state outcome" where
  "pending_loop 0 cfg env st = OutOfFuel"
| "pending_loop (Suc n) cfg env st =
     (case pending_dirs st of
        [] \<Rightarrow> Done st
      | thispend # rest \<Rightarrow>
          if LOOP_DETECT st \<and> p_name thispend = None then
            (case dequeue_marker (st\<lparr>pending_dirs := rest\<rparr>) of
               Done st1 \<Rightarrow> pending_loop n cfg env st1
             | other \<Rightarrow> other)
          else
            (case p_name thispend of
               None \<Rightarrow> Stopped (Undefined ''digest_directory of a null name'')
             | Some dirname \<Rightarrow>
                 (case digest_directory n cfg env dirname (st\<lparr>pending_dirs := rest\<rparr>) of
                    Done st1 \<Rightarrow> pending_loop n cfg env st1
                  | other \<Rightarrow> other)))"

text \<open>
  The part of \<open>main\<close> that computes digests, from the initialisation of the cycle guard
  to the final assertion that the table of active directories is empty. \<open>argv\<close> holds
  the operands; \<open>binary\<close> and \<open>buf0\<close> are \<open>file_is_binary\<close> and the content of the
  uninitialised \<open>bin_buffer\<close>.
\<close>

fun gobble_arguments ::
  "config \<Rightarrow> fs_env \<Rightarrow> string list \<Rightarrow> trav_state \<Rightarrow> trav_state outcome" where
  "gobble_arguments cfg env [] st = Done st"
| "gobble_arguments cfg env (a # as) st =
     (case gobble_file cfg env a unknown NOT_AN_INODE_NUMBER True [] st of
        Done st1 \<Rightarrow> gobble_arguments cfg env as st1
      | other \<Rightarrow> other)"

definition main_init :: "config \<Rightarrow> fs_env \<Rightarrow> int \<Rightarrow> (nat \<Rightarrow> 8 word) \<Rightarrow> trav_state outcome" where
  "main_init cfg env binary buf0 =
     (let st0 = \<lparr>cwd_file = map (fs_uninit env) [0 ..< 128], cwd_n_used = 0, pending_dirs = [],
                 active_dir_set = (if recursive cfg then Some {} else None),
                 dev_ino_obstack = [], dot_st = zero_stat, dot_dot_st = zero_stat,
                 missing = False, stdin_read = False, file_is_binary = binary,
                 digest_buffer = buf0, emitted = []\<rparr>
      in
      if \<not> recursive cfg then Done st0
      else
        (case fs_stat env ''.'' of
           Inl e \<Rightarrow> Stopped (Died (ErrFile e ''.''))
         | Inr d \<Rightarrow>
             (case fs_stat env ''..'' of
                Inl e \<Rightarrow> Stopped (Died (ErrFile e ''..''))
              | Inr dd \<Rightarrow> Done (st0\<lparr>dot_st := d, dot_dot_st := dd\<rparr>))))"

definition main_traversal ::
  "nat \<Rightarrow> config \<Rightarrow> fs_env \<Rightarrow> string list \<Rightarrow> int \<Rightarrow> (nat \<Rightarrow> 8 word) \<Rightarrow> trav_state outcome" where
  "main_traversal fuel cfg env argv binary buf0 =
     (case main_init cfg env binary buf0 of
        Done st0 \<Rightarrow>
          (case (if argv = []
                 then gobble_file cfg env ''-'' regular_file NOT_AN_INODE_NUMBER True [] st0
                 else gobble_arguments cfg env argv st0) of
             Done st1 \<Rightarrow>
               (case (if cwd_n_used st1 \<noteq> 0 then extract_dirs_from_files env None True st1
                      else Done st1) of
                  Done st2 \<Rightarrow>
                    (case (if cwd_n_used st2 \<noteq> 0 then digest_current_files fuel cfg env 0 st2
                           else Done st2) of
                       Done st3 \<Rightarrow>
                         (case pending_loop fuel cfg env st3 of
                            Done st4 \<Rightarrow>
                              if active_dir_set st4 \<noteq> None \<and> active_dir_set st4 \<noteq> Some {}
                              then Stopped (AssertionFailed TableEmpty)
                              else Done st4
                          | other \<Rightarrow> other)
                     | other \<Rightarrow> other)
                | other \<Rightarrow> other)
           | other \<Rightarrow> other)
      | other \<Rightarrow> other)"

section \<open>Concrete inputs\<close>

text \<open>
  An md5sum run without options, the MD5 digest of the empty file, and a file system in
  which every file is empty and readable.
\<close>

definition ex_cfg :: config where
  "ex_cfg = \<lparr>algo = MD5, status_only = False, warn = False, ignore_missing = False,
             quiet = False, strict = False, prefix_tag = False, delim = NEWLINE,
             recursive = False, ignore_mode = IGNORE_DEFAULT, ignore_patterns = [],
             hide_patterns = []\<rparr>"

definition ex_md5_empty :: "nat \<Rightarrow> 8 word" where
  "ex_md5_empty i =
     [0xd4, 0x1d, 0x8c, 0xd9, 0x8f, 0x00, 0xb2, 0x04,
      0xe9, 0x80, 0x09, 0x98, 0xec, 0xf8, 0x42, 0x7e] ! i"

definition ex_zero_buffer :: "nat \<Rightarrow> 8 word" where
  "ex_zero_buffer i = 0"

definition ex_files :: "uintmax_t \<Rightarrow> string \<Rightarrow> file_env" where
  "ex_files n f = \<lparr>fopen_result = None, stream_result = Inr ex_md5_empty,
                   fclose_result = None\<rparr>"

definition ex_no_files :: "uintmax_t \<Rightarrow> string \<Rightarrow> file_env" where
  "ex_no_files n f = \<lparr>fopen_result = Some ENOENT, stream_result = Inr ex_md5_empty,
                      fclose_result = None\<rparr>"

definition ex_gnu_line :: string where
  "ex_gnu_line = ''d41d8cd98f00b204e9800998ecf8427e  file.txt''"

definition ex_bsd_reversed_line :: string where
  "ex_bsd_reversed_line = ''d41d8cd98f00b204e9800998ecf8427e file.txt''"

definition ex_stdin_line :: string where
  "ex_stdin_line = ''d41d8cd98f00b204e9800998ecf8427e  -''"

definition ex_manifest :: manifest where
  "ex_manifest = \<lparr>m_fopen = None, m_content = ex_gnu_line @ [NEWLINE],
                  m_read_error = False, m_fclose = None\<rparr>"

definition ex_manifest_read_error :: manifest where
  "ex_manifest_read_error = ex_manifest\<lparr>m_read_error := True\<rparr>"

definition ex_manifest_mixed :: manifest where
  "ex_manifest_mixed =
     \<lparr>m_fopen = None,
      m_content = ex_bsd_reversed_line @ [NEWLINE] @ ex_gnu_line @ [NEWLINE],
      m_read_error = False, m_fclose = None\<rparr>"

definition ex_check_state :: check_state where
  "ex_check_state =
     \<lparr>n_misformatted_lines = 0, n_improperly_formatted_lines = 0,
      n_mismatched_checksums = 0, n_open_or_read_failures = 0,
      properly_formatted_lines = False, matched_checksums = False,
      line_number = 1, bin_buffer = ex_zero_buffer, bsd_reversed = - 1,
      have_read_stdin = False, events = []\<rparr>"

text \<open>
  A recursive run, and a file system with the directory \<open>loop\<close>: it holds the empty
  file \<open>f\<close>, the symbolic links \<open>a\<close> and \<open>b\<close> to the directory itself and the
  symbolic link \<open>gone\<close> to a file that does not exist. Memory from \<open>malloc\<close> is
  zeroed.
\<close>

definition ex_cfg_r :: config where
  "ex_cfg_r = ex_cfg\<lparr>recursive := True\<rparr>"

definition ex_loop_stat :: stat where
  "ex_loop_stat = \<lparr>st_dev = 1, st_ino = 10, st_mode = S_IFDIR\<rparr>"

definition ex_loop_paths :: "string list" where
  "ex_loop_paths = [''loop'', ''loop/'', ''loop/a'', ''loop/a/'', ''loop/b'', ''loop/b/'']"

definition ex_loop_stream :: dirstream where
  "ex_loop_stream =
     \<lparr>ds_stat = Inr ex_loop_stat,
      ds_entries = [Entry ''.'' True, Entry ''..'' True, Entry ''f'' False,
                    Entry ''a'' False, Entry ''b'' False, Entry ''gone'' False],
      ds_closedir = None\<rparr>"

definition ex_env :: fs_env where
  "ex_env =
     \<lparr>fs_stat = (\<lambda>p. if p \<in> set ex_loop_paths then Inr ex_loop_stat
                     else if p = ''loop/f''
                     then Inr \<lparr>st_dev = 1, st_ino = 11, st_mode = S_IFREG\<rparr>
                     else if p = ''.''
                     then Inr \<lparr>st_dev = 1, st_ino = 2, st_mode = S_IFDIR\<rparr>
                     else if p = ''..''
                     then Inr \<lparr>st_dev = 1, st_ino = 1, st_mode = S_IFDIR\<rparr>
                     else Inl ENOENT),
      fs_lstat = (\<lambda>p. if p = ''loop/gone''
                      then Inr \<lparr>st_dev = 1, st_ino = 14, st_mode = S_IFLNK\<rparr>
                      else Inl ENOENT),
      fs_opendir = (\<lambda>p. if p \<in> set ex_loop_paths then Inr ex_loop_stream else Inl ENOENT),
      fs_getcwd = (\<lambda>n. None),
      fs_digest = (\<lambda>p. \<lparr>fopen_result = None, stream_result = Inr ex_md5_empty,
                         fclose_result = None\<rparr>),
      fs_fnmatch = (\<lambda>p f. False),
      fs_file_name_concat = (\<lambda>d f. d @ ''/'' @ f),
      fs_uninit = (\<lambda>i. zero_fileinfo)\<rparr>"

definition ex_trav_state :: trav_state where
  "ex_trav_state =
     \<lparr>cwd_file = replicate 4 zero_fileinfo, cwd_n_used = 0, pending_dirs = [],
      active_dir_set = Some {}, dev_ino_obstack = [],
      dot_st = \<lparr>st_dev = 1, st_ino = 2, st_mode = S_IFDIR\<rparr>,
      dot_dot_st = \<lparr>st_dev = 1, st_ino = 1, st_mode = S_IFDIR\<rparr>,
      missing = False, stdin_read = False, file_is_binary = 0,
      digest_buffer = ex_zero_buffer, emitted = []\<rparr>"

text \<open>The inventory after \<open>md5sum -r loop\<close> has registered its operand.\<close>

definition ex_one_directory :: trav_state where
  "ex_one_directory =
     ex_trav_state\<lparr>cwd_file :=
                     [zero_fileinfo\<lparr>f_name := Ptr ''loop'', f_stat := ex_loop_stat,
                                     f_filetype := arg_directory, f_stat_ok := True\<rparr>,
                      zero_fileinfo, zero_fileinfo, zero_fileinfo],
                   cwd_n_used := 1\<rparr>"


section \<open>Properties of the verification engine\<close>

lemma check_misformatted_line_number:
  "line_number (check_misformatted cfg name st) = line_number st"
  by (simp add: check_misformatted_def)

lemma check_compare_line_number:
  "line_number (check_compare cfg hex_digest shown st) = line_number st"
  by (simp add: check_compare_def Let_def)

lemma check_verify_line_number:
  "line_number (check_verify cfg files st hex_digest filename) = line_number st"
  by (simp add: check_verify_def Let_def check_compare_line_number)

lemma digest_check_line_line_number:
  "line_number (digest_check_line cfg files is_stdin name st raw) = line_number st"
  by (simp add: digest_check_line_def Let_def check_misformatted_line_number
        check_verify_line_number split: option.splits)

text \<open>
  C1 (as amended). When \<open>digest_check\<close> returns, its verdict is pass exactly when the
  manifest stream ended without a read error, the manifest (unless it is standard input)
  was closed without error, at least one properly formatted line was read, at least one
  checksum matched, no checksum mismatched, no file failed to open or read, and, under
  \<open>--strict\<close>, no line was improperly formatted.
\<close>

theorem digest_check_verdict:
  assumes "digest_check cfg files m bsd0 stdin0 buf0 name = Inr (v, st)"
  shows "v \<longleftrightarrow>
           \<not> m_read_error m \<and> (name = ''-'' \<or> m_fclose m = None)
           \<and> properly_formatted_lines st \<and> matched_checksums st
           \<and> n_mismatched_checksums st = 0 \<and> n_open_or_read_failures st = 0
           \<and> (strict cfg \<longrightarrow> n_improperly_formatted_lines st = 0)"
  using assms
  by (auto simp: digest_check_def Let_def split: if_splits sum.splits)

lemma ex_run:
  "case digest_check ex_cfg ex_files ex_manifest (- 1) False ex_zero_buffer ''sums'' of
     Inl e \<Rightarrow> False
   | Inr r \<Rightarrow> fst r"
  by code_simp

theorem digest_check_verdict_witness:
  "\<exists>st. digest_check ex_cfg ex_files ex_manifest (- 1) False ex_zero_buffer ''sums''
           = Inr (True, st)
        \<and> \<not> m_read_error ex_manifest \<and> m_fclose ex_manifest = None
        \<and> properly_formatted_lines st \<and> matched_checksums st
        \<and> n_mismatched_checksums st = 0 \<and> n_open_or_read_failures st = 0"
proof -
  from ex_run obtain st where
    h: "digest_check ex_cfg ex_files ex_manifest (- 1) False ex_zero_buffer ''sums''
          = Inr (True, st)"
    by (cases "digest_check ex_cfg ex_files ex_manifest (- 1) False ex_zero_buffer ''sums''")
       auto
  from digest_check_verdict [OF h] h show ?thesis by simp
qed

text \<open>
  The claim without the two conditions on the stream fails: a manifest with one matching
  line whose stream then reports a read error is rejected although all five conditions on
  the counters hold.
\<close>

lemma ex_run_read_error:
  "case digest_check ex_cfg ex_files ex_manifest_read_error (- 1) False ex_zero_buffer ''sums'' of
     Inl e \<Rightarrow> False
   | Inr r \<Rightarrow>
       \<not> fst r \<and> properly_formatted_lines (snd r) \<and> matched_checksums (snd r)
       \<and> n_mismatched_checksums (snd r) = 0 \<and> n_open_or_read_failures (snd r) = 0
       \<and> n_improperly_formatted_lines (snd r) = 0"
  by code_simp

theorem digest_check_read_error_counterexample:
  "\<not> isl (digest_check ex_cfg ex_files ex_manifest_read_error (- 1) False ex_zero_buffer ''sums'')
   \<and> \<not> (fst (projr (digest_check ex_cfg ex_files ex_manifest_read_error (- 1) False ex_zero_buffer ''sums''))
        \<longleftrightarrow>
          properly_formatted_lines (snd (projr (digest_check ex_cfg ex_files ex_manifest_read_error (- 1) False ex_zero_buffer ''sums'')))
          \<and> matched_checksums (snd (projr (digest_check ex_cfg ex_files ex_manifest_read_error (- 1) False ex_zero_buffer ''sums'')))
          \<and> n_mismatched_checksums (snd (projr (digest_check ex_cfg ex_files ex_manifest_read_error (- 1) False ex_zero_buffer ''sums''))) = 0
          \<and> n_open_or_read_failures (snd (projr (digest_check ex_cfg ex_files ex_manifest_read_error (- 1) False ex_zero_buffer ''sums''))) = 0
          \<and> (strict ex_cfg \<longrightarrow> n_improperly_formatted_lines (snd (projr (digest_check ex_cfg ex_files ex_manifest_read_error (- 1) False ex_zero_buffer ''sums''))) = 0))"
  using ex_run_read_error
  by (cases "digest_check ex_cfg ex_files ex_manifest_read_error (- 1) False ex_zero_buffer ''sums''")
     auto

text \<open>
  C10. The line counter of \<open>digest_check\<close> is guarded against wrap-around: when
  incrementing \<open>line_number\<close> yields zero, the loop dies with "too many checksum lines",
  whatever remains in the manifest.
\<close>

theorem line_counter_overflow_dies:
  assumes "line_number st + 1 = 0"
  shows "digest_check_loop cfg files is_stdin checkfile_name st content
           = Inl (TooManyChecksumLines checkfile_name)"
  using assms by (subst digest_check_loop.simps) simp

theorem line_counter_overflow_dies_witness:
  "line_number (ex_check_state\<lparr>line_number := 0xFFFFFFFFFFFFFFFF\<rparr>) + 1 = 0
   \<and> digest_check_loop ex_cfg ex_files False ''sums''
        (ex_check_state\<lparr>line_number := 0xFFFFFFFFFFFFFFFF\<rparr>) (ex_gnu_line @ [NEWLINE])
      = Inl (TooManyChecksumLines ''sums'')"
proof -
  have h: "line_number (ex_check_state\<lparr>line_number := 0xFFFFFFFFFFFFFFFF\<rparr>) + 1 = 0"
    by simp
  show ?thesis by (rule conjI [OF h line_counter_overflow_dies [OF h]])
qed

text \<open>A state that the loop returns never holds a wrapped line counter.\<close>

lemma digest_check_loop_line_number:
  "digest_check_loop cfg files is_stdin name st content = Inr st' \<Longrightarrow> line_number st' \<noteq> 0"
proof (induction cfg files is_stdin name st content rule: digest_check_loop.induct)
  case (1 cfg files is_stdin name st content)
  from "1.prems" have u:
    "(if line_number st + 1 = 0 then Inl (TooManyChecksumLines name)
      else
        (case getline content of
           None \<Rightarrow> Inr (st\<lparr>line_number := line_number st + 1\<rparr>)
         | Some (line, rest) \<Rightarrow>
             if hd line = CHR ''#''
             then (if last line = NEWLINE
                   then digest_check_loop cfg files is_stdin name
                          (st\<lparr>line_number := line_number st + 1\<rparr>) rest
                   else Inr (st\<lparr>line_number := line_number st + 1\<rparr>))
             else (if last line = NEWLINE
                   then digest_check_loop cfg files is_stdin name
                          (digest_check_line cfg files is_stdin name
                             (st\<lparr>line_number := line_number st + 1\<rparr>) line) rest
                   else Inr (digest_check_line cfg files is_stdin name
                               (st\<lparr>line_number := line_number st + 1\<rparr>) line)))) = Inr st'"
    by (simp only: digest_check_loop.simps [of cfg files is_stdin name st content])
  show ?case
  proof (cases "line_number st + 1 = 0")
    case True
    with u show ?thesis by simp
  next
    case nz: False
    show ?thesis
    proof (cases "getline content")
      case None
      with u nz show ?thesis by auto
    next
      case (Some p)
      obtain line rest where p: "p = (line, rest)" by (cases p)
      show ?thesis
      proof (cases "last line = NEWLINE")
        case nl: True
        show ?thesis
        proof (cases "hd line = CHR ''#''")
          case True
          with u nz Some p nl
          have "digest_check_loop cfg files is_stdin name
                  (st\<lparr>line_number := line_number st + 1\<rparr>) rest = Inr st'" by simp
          with "1.IH"(1) [OF nz Some p [symmetric] True nl] show ?thesis by simp
        next
          case False
          with u nz Some p nl
          have "digest_check_loop cfg files is_stdin name
                  (digest_check_line cfg files is_stdin name
                     (st\<lparr>line_number := line_number st + 1\<rparr>) line) rest = Inr st'" by simp
          with "1.IH"(2) [OF nz Some p [symmetric] False nl] show ?thesis by simp
        qed
      next
        case False
        with u nz Some p show ?thesis
          by (auto simp: digest_check_line_line_number split: if_splits)
      qed
    qed
  qed
qed

text \<open>
  C9. When the manifest is standard input, a line that parses with the file name \<open>-\<close>
  is counted as improperly formatted (both counters go up by one), is warned about under
  \<open>--warn\<close>, and is not verified: nothing else of the state changes.
\<close>

theorem stdin_dash_is_misformatted:
  assumes "split_3 (algo cfg) (bsd_reversed st) (if last raw = NEWLINE then butlast raw else raw)
             = (Some (hex_digest, binary, ''-''), bsd)"
  shows "digest_check_line cfg files True checkfile_name st raw
           = st\<lparr>bsd_reversed := bsd,
                n_misformatted_lines := n_misformatted_lines st + 1,
                n_improperly_formatted_lines := n_improperly_formatted_lines st + 1,
                events := events st @
                  (if warn cfg then [Stderr (ImproperlyFormatted checkfile_name (line_number st))]
                   else [])\<rparr>"
  using assms by (simp add: digest_check_line_def check_misformatted_def Let_def)

theorem stdin_dash_is_misformatted_witness:
  "split_3 (algo (ex_cfg\<lparr>warn := True\<rparr>)) (bsd_reversed ex_check_state)
     (if last (ex_stdin_line @ [NEWLINE]) = NEWLINE then butlast (ex_stdin_line @ [NEWLINE])
      else ex_stdin_line @ [NEWLINE])
     = (Some (''d41d8cd98f00b204e9800998ecf8427e'', Some 0, ''-''), 0)
   \<and> n_misformatted_lines
        (digest_check_line (ex_cfg\<lparr>warn := True\<rparr>) ex_files True ''standard input''
           ex_check_state (ex_stdin_line @ [NEWLINE])) = 1
   \<and> events
        (digest_check_line (ex_cfg\<lparr>warn := True\<rparr>) ex_files True ''standard input''
           ex_check_state (ex_stdin_line @ [NEWLINE]))
       = [Stderr (ImproperlyFormatted ''standard input'' 1)]"
proof -
  have h: "split_3 (algo (ex_cfg\<lparr>warn := True\<rparr>)) (bsd_reversed ex_check_state)
     (if last (ex_stdin_line @ [NEWLINE]) = NEWLINE then butlast (ex_stdin_line @ [NEWLINE])
      else ex_stdin_line @ [NEWLINE])
     = (Some (''d41d8cd98f00b204e9800998ecf8427e'', Some 0, ''-''), 0)"
    by code_simp
  show ?thesis
    using h stdin_dash_is_misformatted
            [where files = ex_files and checkfile_name = "''standard input''", OF h]
    by (simp add: ex_check_state_def)
qed

text \<open>
  C7. Under \<open>--ignore-missing\<close>, a properly formatted line that names a file whose
  \<open>fopen\<close> fails with \<open>ENOENT\<close> changes no counter, does not set
  \<open>matched_checksums\<close> and prints nothing: the line only records that a properly
  formatted line was seen (and the style the parser detected).
\<close>

theorem ignore_missing_line_not_counted:
  assumes "ignore_missing cfg"
    and "split_3 (algo cfg) (bsd_reversed st) (if last raw = NEWLINE then butlast raw else raw)
           = (Some (hex_digest, binary, filename), bsd)"
    and "filename \<noteq> ''-''"
    and "fopen_result (files (line_number st) filename) = Some ENOENT"
  shows "digest_check_line cfg files is_stdin checkfile_name st raw
           = st\<lparr>bsd_reversed := bsd, properly_formatted_lines := True\<rparr>"
  using assms by (simp add: digest_check_line_def check_verify_def digest_file_def Let_def)

theorem ignore_missing_line_not_counted_witness:
  "ignore_missing (ex_cfg\<lparr>ignore_missing := True\<rparr>)
   \<and> split_3 (algo (ex_cfg\<lparr>ignore_missing := True\<rparr>)) (bsd_reversed ex_check_state)
       (if last (ex_gnu_line @ [NEWLINE]) = NEWLINE then butlast (ex_gnu_line @ [NEWLINE])
        else ex_gnu_line @ [NEWLINE])
       = (Some (''d41d8cd98f00b204e9800998ecf8427e'', Some 0, ''file.txt''), 0)
   \<and> fopen_result (ex_no_files (line_number ex_check_state) ''file.txt'') = Some ENOENT
   \<and> digest_check_line (ex_cfg\<lparr>ignore_missing := True\<rparr>) ex_no_files False ''sums''
        ex_check_state (ex_gnu_line @ [NEWLINE])
      = ex_check_state\<lparr>bsd_reversed := 0, properly_formatted_lines := True\<rparr>"
proof -
  have h1: "ignore_missing (ex_cfg\<lparr>ignore_missing := True\<rparr>)" by simp
  have h2: "split_3 (algo (ex_cfg\<lparr>ignore_missing := True\<rparr>)) (bsd_reversed ex_check_state)
       (if last (ex_gnu_line @ [NEWLINE]) = NEWLINE then butlast (ex_gnu_line @ [NEWLINE])
        else ex_gnu_line @ [NEWLINE])
       = (Some (''d41d8cd98f00b204e9800998ecf8427e'', Some 0, ''file.txt''), 0)"
    by code_simp
  have h3: "''file.txt'' \<noteq> ''-''" by simp
  have h4: "fopen_result (ex_no_files (line_number ex_check_state) ''file.txt'') = Some ENOENT"
    by (simp add: ex_no_files_def)
  show ?thesis
    using h1 h2 h4 ignore_missing_line_not_counted
            [where files = ex_no_files and is_stdin = False and checkfile_name = "''sums''",
             OF h1 h2 h3 h4]
    by simp
qed


section \<open>Properties of the checksum line codec\<close>

lemma cs_not_NUL_less: "cs s i \<noteq> NUL \<Longrightarrow> i < length s"
  by (simp add: cs_def split: if_splits)

lemma drop_cs_Cons: "i < length s \<Longrightarrow> drop i s = cs s i # drop (Suc i) s"
  by (simp add: cs_def Cons_nth_drop_Suc)

lemma split_3_finish_shift:
  assumes c: "cs s i = CHR '' '' \<or> cs s i = CHR ''*''"
    and f: "split_3_finish s (i + 1) esc h b bsd = (Some (h', b', f), bsd')"
  shows "split_3_finish s i esc h None 1 = (Some (h', None, cs s i # f), 1)"
proof -
  from c have nn: "cs s i \<noteq> NUL" "cs s i \<noteq> BACKSLASH"
    by (auto simp: NUL_def BACKSLASH_def)
  then have d: "drop i s = cs s i # drop (Suc i) s"
    by (simp add: cs_not_NUL_less drop_cs_Cons)
  from f nn show ?thesis
    by (auto simp: split_3_finish_def d cstring_def split: if_splits option.splits)
qed


lemma style_mixing_unset:
  assumes "snd (split_3 a (- 1) l) = - 1"
  shows "(snd (split_3 a (- 1) l) = 1 \<longrightarrow> split_3 a 0 l = (None, 0))
   \<and> (split_3 a (- 1) l = (Some (hex_digest, binary, f), 0) \<longrightarrow>
        (\<exists>c. (c = CHR '' '' \<or> c = CHR ''*'')
           \<and> split_3 a 1 l = (Some (hex_digest, None, c # f), 1)))"
proof -
  from assms have A: "snd (split_3 a (- 1) l) \<noteq> 1" by simp
  from assms have B: "split_3 a (- 1) l \<noteq> (Some (hex_digest, binary, f), 0)"
    by (metis snd_conv zero_neq_neg_one)
  from A B show ?thesis by blast
qed

lemma snd_split_3_finish: "snd (split_3_finish s j e h b x) = x"
  by (simp add: split_3_finish_def split: option.splits)

text \<open>
  C4 (as amended). A line is of BSD-reversed style when \<open>split_3\<close>, started with no style
  established (\<open>bsd_reversed = -1\<close>), leaves \<open>bsd_reversed = 1\<close>, and of GNU style when
  it leaves \<open>bsd_reversed = 0\<close>. Once the GNU style is established, a line of
  BSD-reversed style is a format error. Once the BSD-reversed style is established, a line
  of GNU style is not rejected: it is parsed as a BSD-reversed line, and its file name is
  the mode character followed by the file name of the GNU reading.
\<close>

theorem split_3_style_mixing:
  "(snd (split_3 a (- 1) l) = 1 \<longrightarrow> split_3 a 0 l = (None, 0))
   \<and> (split_3 a (- 1) l = (Some (hex_digest, binary, f), 0) \<longrightarrow>
        (\<exists>c. (c = CHR '' '' \<or> c = CHR ''*'')
           \<and> split_3 a 1 l = (Some (hex_digest, None, c # f), 1)))"
proof -
  define i where "i = (if cs l (skip_white l 0) = BACKSLASH then skip_white l 0 + 1
                       else skip_white l 0)"
  define esc where "esc = (cs l (skip_white l 0) = BACKSLASH)"
  define k where "k = i + DIGEST_HEX_BYTES a"
  define s1 where "s1 = l[k := NUL]"
  define k1 where "k1 = k + 1"
  define hx where "hx = drop i s1"
  define tagged where
    "tagged = (take (length (DIGEST_TYPE_STRING a)) (drop i l) = DIGEST_TYPE_STRING a)"
  define short where
    "short = (length l - i < MIN_DIGEST_LINE_LENGTH a + (if cs l i = BACKSLASH then 1 else 0))"
  define white where "white = ISWHITE (cs l k)"
  define hexok where "hexok = hex_digits (DIGEST_HEX_BYTES a) hx"
  define rev where
    "rev = (length l - k1 = 1 \<or> (cs s1 k1 \<noteq> CHR '' '' \<and> cs s1 k1 \<noteq> CHR ''*''))"
  have untagged: "split_3 a bsd l =
      (if short then (None, bsd)
       else if \<not> white then (None, bsd)
       else if \<not> hexok then (None, bsd)
       else if rev then (if bsd = 0 then (None, bsd)
                         else split_3_finish s1 k1 esc (cstring hx) None 1)
       else if bsd \<noteq> 1 then
         split_3_finish s1 (k1 + 1) esc (cstring hx)
           (Some (if cs s1 k1 = CHR ''*'' then 1 else 0)) 0
       else split_3_finish s1 k1 esc (cstring hx) None bsd)"
    if nt: "\<not> tagged" for bsd
  proof -
    note nt' = nt [unfolded tagged_def i_def]
    show ?thesis
      unfolding split_3_def Let_def short_def white_def hexok_def rev_def hx_def k1_def
        s1_def k_def esc_def i_def
      by (simp only: nt' if_False)
  qed
  have tagged_bsd: "snd (split_3 a bsd l) = bsd" if t: tagged for bsd
  proof -
    note t' = t [unfolded tagged_def i_def]
    show ?thesis
      unfolding split_3_def Let_def
      apply (simp only: t' if_True)
      apply (simp split: option.splits prod.splits)
      done
  qed
  show ?thesis
  proof (cases tagged)
    case True
    show ?thesis by (rule style_mixing_unset [OF tagged_bsd [OF True]])
  next
    case False
    note u = untagged [OF False]
    show ?thesis
    proof (cases "short \<or> \<not> white \<or> \<not> hexok")
      case True
      then have "split_3 a (- 1) l = (None, - 1)"
        by (auto simp: u [of "- 1"])
      then have "snd (split_3 a (- 1) l) = - 1" by simp
      then show ?thesis by (rule style_mixing_unset)
    next
      case nb: False
      then have ok: "\<not> short" "white" "hexok" by simp_all
      show ?thesis
      proof (cases rev)
        case True
        have z: "split_3 a 0 l = (None, 0)"
          using ok True by (simp add: u [of 0])
        have "split_3 a (- 1) l = split_3_finish s1 k1 esc (cstring hx) None 1"
          using ok True by (simp add: u [of "- 1"])
        then have "snd (split_3 a (- 1) l) = 1" by (simp add: snd_split_3_finish)
        then have "split_3 a (- 1) l \<noteq> (Some (hex_digest, binary, f), 0)"
          by (metis snd_conv zero_neq_one)
        with z show ?thesis by blast
      next
        case nr: False
        then have c: "cs s1 k1 = CHR '' '' \<or> cs s1 k1 = CHR ''*''"
          by (auto simp: rev_def)
        have m1: "split_3 a (- 1) l = split_3_finish s1 (k1 + 1) esc (cstring hx)
                    (Some (if cs s1 k1 = CHR ''*'' then 1 else 0)) 0"
          using ok nr by (simp add: u [of "- 1"])
        have p1: "split_3 a 1 l = split_3_finish s1 k1 esc (cstring hx) None 1"
          using ok nr by (simp add: u [of 1])
        have A: "snd (split_3 a (- 1) l) \<noteq> 1"
          by (simp add: m1 snd_split_3_finish)
        have B: "\<exists>c. (c = CHR '' '' \<or> c = CHR ''*'')
           \<and> split_3 a 1 l = (Some (hex_digest, None, c # f), 1)"
          if h: "split_3 a (- 1) l = (Some (hex_digest, binary, f), 0)"
        proof -
          from h m1 have "split_3_finish s1 (k1 + 1) esc (cstring hx)
                    (Some (if cs s1 k1 = CHR ''*'' then 1 else 0)) 0
                  = (Some (hex_digest, binary, f), 0)" by simp
          from split_3_finish_shift [OF c this]
          have "split_3 a 1 l = (Some (hex_digest, None, cs s1 k1 # f), 1)"
            by (simp add: p1)
          with c show ?thesis by blast
        qed
        from A B show ?thesis by blast
      qed
    qed
  qed
qed

theorem split_3_style_mixing_witness:
  "split_3 MD5 0 ex_bsd_reversed_line = (None, 0)
   \<and> (\<exists>c. (c = CHR '' '' \<or> c = CHR ''*'')
         \<and> split_3 MD5 1 ex_gnu_line
             = (Some (''d41d8cd98f00b204e9800998ecf8427e'', None, c # ''file.txt''), 1))"
proof -
  have h1: "snd (split_3 MD5 (- 1) ex_bsd_reversed_line) = 1" by code_simp
  have h2: "split_3 MD5 (- 1) ex_gnu_line
              = (Some (''d41d8cd98f00b204e9800998ecf8427e'', Some 0, ''file.txt''), 0)"
    by code_simp
  note t1 = split_3_style_mixing
    [where a = MD5 and l = ex_bsd_reversed_line, THEN conjunct1, THEN mp, OF h1]
  note t2 = split_3_style_mixing
    [where a = MD5 and l = ex_gnu_line, THEN conjunct2, THEN mp, OF h2]
  show ?thesis by (rule conjI [OF t1 t2])
qed

text \<open>
  The claim fails in the order BSD-reversed first, GNU second: the second line of the
  manifest is accepted, with the file name \<open>'' file.txt''\<close>, and no line is counted as
  improperly formatted.
\<close>

theorem split_3_style_mixing_counterexample:
  "snd (split_3 MD5 (- 1) ex_bsd_reversed_line) = 1
   \<and> fst (split_3 MD5 (- 1) ex_bsd_reversed_line) \<noteq> None
   \<and> snd (split_3 MD5 (- 1) ex_gnu_line) = 0
   \<and> fst (split_3 MD5 1 ex_gnu_line) \<noteq> None
   \<and> n_misformatted_lines
        (snd (projr (digest_check ex_cfg ex_files ex_manifest_mixed (- 1) False ex_zero_buffer ''sums''))) = 0"
  by code_simp


section \<open>Formatting and parsing a checksum line\<close>

lemma cs_append_left: "i < length xs \<Longrightarrow> cs (xs @ ys) i = cs xs i"
  by (simp add: cs_def nth_append)

lemma cs_append_right: "cs (xs @ ys) (length xs + j) = cs ys j"
  by (simp add: cs_def nth_append)

lemma cs_Cons_0: "cs (x # xs) 0 = x"
  by (simp add: cs_def)

lemma cs_Cons_Suc: "cs (x # xs) (Suc i) = cs xs i"
  by (simp add: cs_def)

lemma cs_Nil: "cs [] i = NUL"
  by (simp add: cs_def)

lemma skip_white_stop: "\<not> ISWHITE (cs s i) \<Longrightarrow> skip_white s i = i"
  by (cases "i < length s") (simp_all add: skip_white_def cs_def hd_drop_conv_nth takeWhile_eq_Nil_iff
      flip: Cons_nth_drop_Suc)

lemma skip_white_step: "ISWHITE (cs s i) \<Longrightarrow> skip_white s i = skip_white s (Suc i)"
proof -
  assume w: "ISWHITE (cs s i)"
  then have "i < length s" by (auto simp: cs_def ISWHITE_def NUL_def split: if_splits)
  then have "drop i s = cs s i # drop (Suc i) s" by (simp add: cs_def Cons_nth_drop_Suc)
  with w show ?thesis by (simp add: skip_white_def)
qed

lemma isxdigit_facts:
  "isxdigit c \<Longrightarrow> c \<noteq> NUL \<and> \<not> ISWHITE c \<and> c \<noteq> BACKSLASH \<and> c \<noteq> CHR '')''"
  by (auto simp: isxdigit_def NUL_def ISWHITE_def BACKSLASH_def)

lemma bin2hex_xdigit: "i < 16 \<Longrightarrow> isxdigit (bin2hex ! i)"
proof -
  assume "i < 16"
  then have "i \<in> set [0..<16]" by simp
  moreover have "\<forall>i\<in>set [0..<16]. isxdigit (bin2hex ! i)" by code_simp
  ultimately show ?thesis by blast
qed

lemma high_nibble_less: "unat (drop_bit 4 (b :: 8 word)) < 16"
proof -
  have "unat (drop_bit 4 b) = unat b div 2 ^ 4"
    by (simp add: drop_bit_eq_div unat_div)
  moreover have "unat b < 2 ^ 8" using unsigned_less [of b] by simp
  ultimately show ?thesis by simp
qed

lemma low_nibble_less: "unat (and (b :: 8 word) 0x0F) < 16"
proof -
  have "and b 0x0F \<le> 0x0F" by (rule word_and_le1)
  then have "unat (and b 0x0F) \<le> unat (0x0F :: 8 word)" by (simp add: word_le_nat_alt)
  then show ?thesis by simp
qed

lemma hex_byte_xdigit: "c \<in> set (hex_byte b) \<Longrightarrow> isxdigit c"
  by (auto simp: hex_byte_def bin2hex_xdigit high_nibble_less low_nibble_less)

lemma print_hex_xdigit: "c \<in> set (print_hex n buf) \<Longrightarrow> isxdigit c"
  by (auto simp: print_hex_def hex_byte_xdigit)

lemma length_print_hex: "length (print_hex n buf) = 2 * n"
proof -
  have "length (concat (map (\<lambda>i. hex_byte (buf i)) xs)) = 2 * length xs" for xs
    by (induction xs) (simp_all add: hex_byte_def)
  then show ?thesis by (simp add: print_hex_def)
qed

lemma DIGEST_HEX_BYTES_even: "2 * (DIGEST_HEX_BYTES a div 2) = DIGEST_HEX_BYTES a"
  by (cases a) (simp_all add: DIGEST_HEX_BYTES_def)

lemma DIGEST_HEX_BYTES_pos: "0 < DIGEST_HEX_BYTES a"
  by (cases a) (simp_all add: DIGEST_HEX_BYTES_def)

lemma DIGEST_TYPE_STRING_hd:
  "\<exists>t ts. DIGEST_TYPE_STRING a = t # ts \<and> \<not> isxdigit t \<and> \<not> ISWHITE t \<and> t \<noteq> BACKSLASH"
  by (cases a) (simp_all add: isxdigit_def ISWHITE_def BACKSLASH_def)

lemma filename_unescape_print_filename:
  "NUL \<notin> set f \<Longrightarrow> filename_unescape (print_filename f True) = Some f"
  by (induction f) (auto simp: print_filename_def NUL_def BACKSLASH_def NEWLINE_def)

lemma print_filename_Nil_iff: "print_filename f e = [] \<longleftrightarrow> f = []"
  by (cases f) (auto simp: print_filename_def)

lemma cstring_no_NUL: "NUL \<notin> set s \<Longrightarrow> cstring s = s"
  by (auto simp: cstring_def takeWhile_eq_all_conv)

lemma cstring_append_NUL: "NUL \<notin> set s \<Longrightarrow> cstring (s @ NUL # r) = s"
  by (auto simp: cstring_def takeWhile_tail takeWhile_eq_all_conv)

lemma hex_digits_append_NUL:
  "\<forall>c\<in>set h. isxdigit c \<Longrightarrow> hex_digits (length h) (h @ NUL # r)"
  by (induction h) (simp_all add: cs_def)

lemma hex_digits_end: "\<forall>c\<in>set h. isxdigit c \<Longrightarrow> hex_digits (length h) h"
  by (induction h) (simp_all add: cs_def)

lemma find_rparen_prefix: "i < length s \<Longrightarrow> find_rparen (s @ t) i = find_rparen s i"
  by (induction i) (simp_all add: cs_append_left)

lemma find_rparen_append:
  "CHR '')'' \<notin> set r \<Longrightarrow> find_rparen (e @ CHR '')'' # r) (length e + length r) = length e"
proof (induction r rule: rev_induct)
  case Nil
  then show ?case by (cases e rule: rev_cases) (simp_all add: cs_def nth_append)
next
  case (snoc x xs)
  have c: "cs (e @ CHR '')'' # xs @ [x]) (Suc (length e + length xs)) = x"
    by (simp add: cs_def nth_append)
  have "find_rparen ((e @ CHR '')'' # xs) @ [x]) (length e + length xs)
          = find_rparen (e @ CHR '')'' # xs) (length e + length xs)"
    by (rule find_rparen_prefix) simp
  with snoc c show ?case by auto
qed

lemma take_not_type_string:
  assumes "isxdigit h"
  shows "take (length (DIGEST_TYPE_STRING a)) (h # r) \<noteq> DIGEST_TYPE_STRING a"
proof -
  from DIGEST_TYPE_STRING_hd [of a] obtain t ts where
    t: "DIGEST_TYPE_STRING a = t # ts" "\<not> isxdigit t" by blast
  with assms have "h \<noteq> t" by auto
  with t show ?thesis by simp
qed

lemma split_3_untagged_plain:
  assumes len: "length H = DIGEST_HEX_BYTES a"
    and hex: "\<forall>c\<in>set H. isxdigit c"
    and m: "m = CHR '' '' \<or> m = CHR ''*''"
    and E: "E \<noteq> []"
    and bsd: "bsd \<noteq> 1"
  shows "split_3 a bsd (H @ CHR '' '' # m # E)
           = (Some (H, Some (if m = CHR ''*'' then 1 else 0), cstring E), 0)"
proof -
  from len DIGEST_HEX_BYTES_pos [of a] obtain h0 H' where H: "H = h0 # H'"
    by (cases H) auto
  from hex H have h0: "isxdigit h0" by simp
  note f0 = isxdigit_facts [OF h0]
  define line where "line = H @ CHR '' '' # m # E"
  define s1 where "s1 = H @ NUL # m # E"
  have sw: "skip_white line 0 = 0"
    using f0 by (simp add: line_def H skip_white_stop cs_Cons_0)
  have c0: "cs line 0 \<noteq> BACKSLASH"
    using f0 by (simp add: line_def H cs_Cons_0)
  have nt: "take (length (DIGEST_TYPE_STRING a)) line \<noteq> DIGEST_TYPE_STRING a"
    using take_not_type_string [OF h0] by (simp add: line_def H)
  have ll: "length line = DIGEST_HEX_BYTES a + 2 + length E"
    by (simp add: line_def len)
  have ck: "cs line (DIGEST_HEX_BYTES a) = CHR '' ''"
    using cs_append_right [of H _ 0] by (simp add: line_def len cs_Cons_0)
  have u1: "line[DIGEST_HEX_BYTES a := NUL] = s1"
    by (simp add: line_def s1_def len [symmetric] list_update_append)
  have hd: "hex_digits (DIGEST_HEX_BYTES a) s1"
    using hex_digits_append_NUL [OF hex] by (simp add: len s1_def)
  have nn: "NUL \<notin> set H" using hex isxdigit_facts by blast
  have cst: "cstring s1 = H"
    unfolding s1_def by (rule cstring_append_NUL [OF nn])
  have ck1: "cs s1 (Suc (DIGEST_HEX_BYTES a)) = m"
    using cs_append_right [of H "NUL # m # E" 1] by (simp add: len s1_def cs_Cons_Suc cs_Cons_0)
  have dr: "drop (Suc (Suc (DIGEST_HEX_BYTES a))) s1 = E"
    by (simp add: len [symmetric] s1_def)
  have le: "length E \<noteq> 0" using E by simp
  show ?thesis
    unfolding line_def [symmetric]
    unfolding split_3_def Let_def
    using m bsd le
    by (auto simp: sw c0 nt ll ck u1 hd cst ck1 dr MIN_DIGEST_LINE_LENGTH_def ISWHITE_def
          split_3_finish_def)
qed


lemma split_3_untagged_escaped:
  assumes len: "length H = DIGEST_HEX_BYTES a"
    and hex: "\<forall>c\<in>set H. isxdigit c"
    and m: "m = CHR '' '' \<or> m = CHR ''*''"
    and E: "E \<noteq> []"
    and bsd: "bsd \<noteq> 1"
    and un: "filename_unescape E = Some f"
  shows "split_3 a bsd (BACKSLASH # H @ CHR '' '' # m # E)
           = (Some (H, Some (if m = CHR ''*'' then 1 else 0), f), 0)"
proof -
  from len DIGEST_HEX_BYTES_pos [of a] obtain h0 H' where H: "H = h0 # H'"
    by (cases H) auto
  from hex H have h0: "isxdigit h0" by simp
  note f0 = isxdigit_facts [OF h0]
  define line where "line = BACKSLASH # H @ CHR '' '' # m # E"
  define s1 where "s1 = BACKSLASH # H @ NUL # m # E"
  have nw: "\<not> ISWHITE BACKSLASH" by (simp add: ISWHITE_def BACKSLASH_def)
  have sw: "skip_white line 0 = 0"
    using nw by (simp add: line_def skip_white_stop cs_Cons_0)
  have c0: "cs line 0 = BACKSLASH"
    by (simp add: line_def cs_Cons_0)
  have c1: "cs line (Suc 0) \<noteq> BACKSLASH"
    using f0 by (simp add: line_def H cs_Cons_0 cs_Cons_Suc)
  have nt: "take (length (DIGEST_TYPE_STRING a)) (drop (Suc 0) line) \<noteq> DIGEST_TYPE_STRING a"
    using take_not_type_string [OF h0] by (simp add: line_def H)
  have ll: "length line = Suc (DIGEST_HEX_BYTES a + 2 + length E)"
    by (simp add: line_def len)
  have ck: "cs line (Suc (DIGEST_HEX_BYTES a)) = CHR '' ''"
    using cs_append_right [of H _ 0] by (simp add: line_def len cs_Cons_Suc cs_Cons_0)
  have u1: "line[Suc (DIGEST_HEX_BYTES a) := NUL] = s1"
    by (simp add: line_def s1_def len [symmetric] list_update_append)
  have hd: "hex_digits (DIGEST_HEX_BYTES a) (drop (Suc 0) s1)"
    using hex_digits_append_NUL [OF hex] by (simp add: len s1_def)
  have nn: "NUL \<notin> set H" using hex isxdigit_facts by blast
  have cst: "cstring (drop (Suc 0) s1) = H"
    using cstring_append_NUL [OF nn] by (simp add: s1_def)
  have ck1: "cs s1 (Suc (Suc (DIGEST_HEX_BYTES a))) = m"
    using cs_append_right [of H "NUL # m # E" 1] by (simp add: len s1_def cs_Cons_Suc cs_Cons_0)
  have dr: "drop (Suc (Suc (Suc (DIGEST_HEX_BYTES a)))) s1 = E"
    by (simp add: len [symmetric] s1_def)
  have le: "length E \<noteq> 0" using E by simp
  show ?thesis
    unfolding line_def [symmetric]
    unfolding split_3_def Let_def
    using m bsd le
    by (auto simp: sw c0 c1 nt ll ck u1 hd cst ck1 dr un MIN_DIGEST_LINE_LENGTH_def ISWHITE_def
          split_3_finish_def)
qed

lemma bsd_split_3_parse:
  assumes hex: "\<forall>c\<in>set H. isxdigit c"
    and H: "H \<noteq> []"
  shows "bsd_split_3 (length H) (E @ CHR '')'' # CHR '' '' # CHR ''='' # CHR '' '' # H) esc
           = (if esc then map_option (Pair H) (filename_unescape E) else Some (H, cstring E))"
proof -
  obtain h0 H' where Hc: "H = h0 # H'" using H by (cases H) auto
  from hex Hc have h0: "isxdigit h0" by simp
  note f0 = isxdigit_facts [OF h0]
  define r where "r = CHR '' '' # CHR ''='' # CHR '' '' # H"
  define s where "s = E @ CHR '')'' # r"
  define s1 where "s1 = E @ NUL # r"
  have np: "CHR '')'' \<notin> set r"
    using hex isxdigit_facts by (auto simp: r_def)
  have ls: "length s - Suc 0 = length E + length r" by (simp add: s_def)
  have fr: "find_rparen s (length E + length r) = length E"
    unfolding s_def by (rule find_rparen_append [OF np])
  have cp: "cs s (length E) = CHR '')''"
    using cs_append_right [of E _ 0] by (simp add: s_def cs_Cons_0)
  have tk: "take (length E) s = E" by (simp add: s_def)
  have u1: "s[length E := NUL] = s1" by (simp add: s_def s1_def list_update_append)
  have c1: "cs s1 (Suc (length E)) = CHR '' ''"
    using cs_append_right [of E "NUL # r" 1] by (simp add: s1_def r_def cs_Cons_Suc cs_Cons_0)
  have c2: "cs s1 (Suc (Suc (length E))) = CHR ''=''"
    using cs_append_right [of E "NUL # r" 2]
    by (simp add: s1_def r_def cs_Cons_Suc cs_Cons_0 numeral_2_eq_2)
  have c3: "cs s1 (Suc (Suc (Suc (length E)))) = CHR '' ''"
    using cs_append_right [of E "NUL # r" 3]
    by (simp add: s1_def r_def cs_Cons_Suc cs_Cons_0 numeral_3_eq_3)
  have c4: "cs s1 (Suc (Suc (Suc (Suc (length E))))) = h0"
    using cs_append_right [of E "NUL # r" "Suc (Suc (Suc (Suc 0)))"]
    by (simp add: s1_def r_def Hc cs_Cons_Suc cs_Cons_0)
  have w1: "skip_white s1 (Suc (length E)) = Suc (Suc (length E))"
    using skip_white_step [of s1 "Suc (length E)"] skip_white_stop [of s1 "Suc (Suc (length E))"]
    by (simp add: c1 c2 ISWHITE_def)
  have w2: "skip_white s1 (Suc (Suc (Suc (length E)))) = Suc (Suc (Suc (Suc (length E))))"
    using skip_white_step [of s1 "Suc (Suc (Suc (length E)))"]
      skip_white_stop [of s1 "Suc (Suc (Suc (Suc (length E))))"] f0
    by (simp add: c3 c4 ISWHITE_def)
  have dr: "drop (Suc (Suc (Suc (Suc (length E))))) s1 = H"
    by (simp add: s1_def r_def)
  have hd: "hex_digits (length H) H" by (rule hex_digits_end [OF hex])
  have nn: "NUL \<notin> set H" using hex isxdigit_facts by blast
  have cst: "cstring H = H" by (rule cstring_no_NUL [OF nn])
  have ne: "s \<noteq> []" by (simp add: s_def)
  show ?thesis
    unfolding r_def [symmetric] s_def [symmetric]
    unfolding bsd_split_3_def Let_def
    using ne
    by (cases "filename_unescape E")
       (simp_all add: ls fr cp tk u1 c2 w1 w2 dr hd cst)
qed


lemma split_3_tagged_plain:
  "split_3 a bsd (DIGEST_TYPE_STRING a @ CHR '' '' # CHR ''('' # rest)
     = (case bsd_split_3 (DIGEST_HEX_BYTES a) rest False of
          None \<Rightarrow> (None, bsd)
        | Some (hex_digest, file_name) \<Rightarrow> (Some (hex_digest, Some 0, file_name), bsd))"
proof -
  from DIGEST_TYPE_STRING_hd [of a] obtain t ts where
    T: "DIGEST_TYPE_STRING a = t # ts" and t: "\<not> ISWHITE t" "t \<noteq> BACKSLASH" by blast
  define line where "line = DIGEST_TYPE_STRING a @ CHR '' '' # CHR ''('' # rest"
  have sw: "skip_white line 0 = 0"
    using t by (simp add: line_def T skip_white_stop cs_Cons_0)
  have c0: "cs line 0 \<noteq> BACKSLASH"
    using t by (simp add: line_def T cs_Cons_0)
  have tk: "take (length (DIGEST_TYPE_STRING a)) line = DIGEST_TYPE_STRING a"
    by (simp add: line_def)
  have cj: "cs line (length (DIGEST_TYPE_STRING a)) = CHR '' ''"
    using cs_append_right [of "DIGEST_TYPE_STRING a" _ 0] by (simp add: line_def cs_Cons_0)
  have cj1: "cs line (Suc (length (DIGEST_TYPE_STRING a))) = CHR ''(''"
    using cs_append_right [of "DIGEST_TYPE_STRING a" _ 1]
    by (simp add: line_def cs_Cons_0 cs_Cons_Suc)
  have dj: "drop (Suc (Suc (length (DIGEST_TYPE_STRING a)))) line = rest"
    by (simp add: line_def)
  show ?thesis
    unfolding line_def [symmetric]
    unfolding split_3_def Let_def
    by (simp add: sw c0 tk cj cj1 dj)
qed

lemma split_3_tagged_escaped:
  "split_3 a bsd (BACKSLASH # DIGEST_TYPE_STRING a @ CHR '' '' # CHR ''('' # rest)
     = (case bsd_split_3 (DIGEST_HEX_BYTES a) rest True of
          None \<Rightarrow> (None, bsd)
        | Some (hex_digest, file_name) \<Rightarrow> (Some (hex_digest, Some 0, file_name), bsd))"
proof -
  define line where "line = BACKSLASH # DIGEST_TYPE_STRING a @ CHR '' '' # CHR ''('' # rest"
  have nw: "\<not> ISWHITE BACKSLASH" by (simp add: ISWHITE_def BACKSLASH_def)
  have sw: "skip_white line 0 = 0"
    using nw by (simp add: line_def skip_white_stop cs_Cons_0)
  have c0: "cs line 0 = BACKSLASH"
    by (simp add: line_def cs_Cons_0)
  have tk: "take (length (DIGEST_TYPE_STRING a)) (drop (Suc 0) line) = DIGEST_TYPE_STRING a"
    by (simp add: line_def)
  have cj: "cs line (Suc (length (DIGEST_TYPE_STRING a))) = CHR '' ''"
    using cs_append_right [of "DIGEST_TYPE_STRING a" _ 0]
    by (simp add: line_def cs_Cons_0 cs_Cons_Suc)
  have cj1: "cs line (Suc (Suc (length (DIGEST_TYPE_STRING a)))) = CHR ''(''"
    using cs_append_right [of "DIGEST_TYPE_STRING a" _ 1]
    by (simp add: line_def cs_Cons_0 cs_Cons_Suc)
  have dj: "drop (Suc (Suc (Suc (length (DIGEST_TYPE_STRING a))))) line = rest"
    by (simp add: line_def)
  show ?thesis
    unfolding line_def [symmetric]
    unfolding split_3_def Let_def
    by (simp add: sw c0 tk cj cj1 dj)
qed

subsection \<open>The hexadecimal digest\<close>

lemma hex_byte_explicit:
  "hex_byte b = [''0123456789abcdef'' ! (unat b div 16), ''0123456789abcdef'' ! (unat b mod 16)]"
proof -
  have h: "unat (drop_bit 4 b) = unat b div 16"
    by (simp add: drop_bit_eq_div unat_div)
  have "(0x0F :: 8 word) = mask 4"
    by (simp add: mask_eq_exp_minus_1)
  then have "and b 0x0F = take_bit 4 b"
    by (simp only: take_bit_eq_mask)
  then have "unat (and b 0x0F) = take_bit 4 (unat b)"
    by (simp only: unsigned_take_bit_eq)
  then have l: "unat (and b 0x0F) = unat b mod 16"
    by (simp only: take_bit_eq_mod) simp
  show ?thesis by (simp only: hex_byte_def bin2hex_def h l)
qed

lemma upt_double_Suc: "[0..<2 * Suc n] = [0..<2 * n] @ [2 * n, Suc (2 * n)]"
  by simp

lemma print_hex_explicit:
  "print_hex n d = map (\<lambda>k. ''0123456789abcdef'' !
                            (if even k then unat (d (k div 2)) div 16 else unat (d (k div 2)) mod 16))
                     [0..<2 * n]"
proof (induction n)
  case 0
  show ?case by (simp add: print_hex_def)
next
  case (Suc n)
  have "print_hex (Suc n) d = print_hex n d @ hex_byte (d n)"
    by (simp add: print_hex_def)
  with Suc show ?case
    by (simp only: upt_double_Suc map_append hex_byte_explicit) simp
qed

lemma lower_hex_nth: "i < 16 \<Longrightarrow> ''0123456789abcdef'' ! i \<in> set ''0123456789abcdef''"
  by (rule nth_mem) simp

lemma print_hex_lower: "c \<in> set (print_hex n d) \<Longrightarrow> c \<in> set ''0123456789abcdef''"
proof -
  assume "c \<in> set (print_hex n d)"
  then obtain k where
    "c = ''0123456789abcdef'' ! (if even k then unat (d (k div 2)) div 16 else unat (d (k div 2)) mod 16)"
    unfolding print_hex_explicit by auto
  moreover have "unat (d (k div 2)) < 2 ^ 8"
    using unsigned_less [of "d (k div 2)", where ?'a = nat] by simp
  then have "unat (d (k div 2)) div 16 < 16" by simp
  moreover have "unat (d (k div 2)) mod 16 < 16" by simp
  ultimately show ?thesis using lower_hex_nth by presburger
qed


subsection \<open>Builds with a variable digest size\<close>

lemma length_options_result:
  "length_options a ls d0 = Some d \<Longrightarrow> d = d0 \<or> length_option_valid a d"
  by (induction ls arbitrary: d0) (auto split: if_splits)

lemma main_digest_length_facts:
  assumes "main_digest_length a optargs False = Some (dl, dh)"
  shows "0 < dl \<and> dl \<le> 512 \<and> dl mod 8 = 0 \<and> dh = dl div 4 \<and> (a = SHA3 \<longrightarrow> 224 \<le> dl)"
proof -
  from assms obtain d where d: "length_options a optargs 0 = Some d" and le: "d \<le> 512"
    and dl: "dl = (if d = 0 then 512 else d)" and dh: "dh = dl div 4"
    by (auto simp: main_digest_length_def digest_max_len_def Let_def split: option.splits if_splits)
  from length_options_result [OF d] have "d = 0 \<or> length_option_valid a d" .
  then show ?thesis
    using le dl dh by (auto simp: length_option_valid_def split: if_splits)
qed

lemma decimal_digit:
  assumes "d < 10"
  shows "digit_value (char_of (48 + d)) = d \<and> ISDIGIT (char_of (48 + d))
         \<and> (char_of (48 + d) = CHR ''0'' \<longrightarrow> d = 0)"
proof -
  from assms have "d \<in> set [0..<10]" by simp
  moreover have "\<forall>d\<in>set [0..<10::nat]. digit_value (char_of (48 + d)) = d \<and> ISDIGIT (char_of (48 + d))
         \<and> (char_of (48 + d) = CHR ''0'' \<longrightarrow> d = 0)"
    by code_simp
  ultimately show ?thesis by blast
qed

lemma print_decimal_digits: "c \<in> set (print_decimal n) \<Longrightarrow> ISDIGIT c"
proof (induction n arbitrary: c rule: print_decimal.induct)
  case (1 n)
  show ?case
  proof (cases "n < 10")
    case True
    with "1.prems" decimal_digit [of n] show ?thesis by (simp add: print_decimal.simps [of n])
  next
    case False
    with "1.prems" "1.IH" decimal_digit [of "n mod 10"] show ?thesis
      by (auto simp add: print_decimal.simps [of n])
  qed
qed

lemma strtoul_value_snoc:
  "strtoul_value b (ds @ [c]) = strtoul_value b ds * int b + int (digit_value c)"
  by (simp add: strtoul_value_def)

lemma strtoul_value_print_decimal: "strtoul_value 10 (print_decimal n) = int n"
proof (induction n rule: print_decimal.induct)
  case (1 n)
  show ?case
  proof (cases "n < 10")
    case True
    with decimal_digit [of n] show ?thesis
      by (simp add: print_decimal.simps [of n] strtoul_value_def)
  next
    case False
    have "int (n div 10) * 10 + int (n mod 10) = int n"
      by presburger
    with False "1.IH" decimal_digit [of "n mod 10"] show ?thesis
      by (simp add: print_decimal.simps [of n] strtoul_value_snoc)
  qed
qed

lemma print_decimal_hd:
  "0 < n \<Longrightarrow> \<exists>d ds. print_decimal n = d # ds \<and> ISDIGIT d \<and> d \<noteq> CHR ''0''"
proof (induction n rule: print_decimal.induct)
  case (1 n)
  show ?case
  proof (cases "n < 10")
    case True
    with "1.prems" decimal_digit [of n] show ?thesis
      by (auto simp add: print_decimal.simps [of n])
  next
    case False
    then have "0 < n div 10" by (simp add: div_greater_zero_iff)
    with "1.IH" False obtain d ds where "print_decimal (n div 10) = d # ds" "ISDIGIT d" "d \<noteq> CHR ''0''"
      by blast
    with False show ?thesis
      by (simp add: print_decimal.simps [of n])
  qed
qed

lemma ISDIGIT_facts:
  assumes "ISDIGIT c"
  shows "digit_value c < 10 \<and> \<not> isspace c \<and> c \<noteq> CHR ''-'' \<and> c \<noteq> CHR ''+''
                 \<and> c \<noteq> CHR '' '' \<and> c \<noteq> CHR ''(''"
proof -
  have "\<forall>c\<in>set ''0123456789''. digit_value c < 10 \<and> \<not> isspace c \<and> c \<noteq> CHR ''-'' \<and> c \<noteq> CHR ''+''
                 \<and> c \<noteq> CHR '' '' \<and> c \<noteq> CHR ''(''"
    by code_simp
  with assms show ?thesis unfolding ISDIGIT_def by blast
qed

lemma takeWhile_stop:
  "(\<And>x. x \<in> set xs \<Longrightarrow> P x) \<Longrightarrow> \<not> P y \<Longrightarrow> takeWhile P (xs @ y # ys) = xs"
  by (simp add: takeWhile_append2)

lemma xstrtoul_print_decimal:
  assumes n: "0 < n" "n \<le> 512"
  shows "xstrtoul (print_decimal n @ CHR '' '' # r) = Some (int n)"
proof -
  from print_decimal_hd [OF n(1)] obtain d ds where
    D: "print_decimal n = d # ds" and d: "ISDIGIT d" "d \<noteq> CHR ''0''" by blast
  note f = ISDIGIT_facts [OF d(1)]
  define p where "p = print_decimal n @ CHR '' '' # r"
  have dw: "dropWhile isspace p = p" using f by (simp add: p_def D)
  have c0: "cs p 0 = d" by (simp add: p_def D cs_Cons_0)
  have "digit_value c < 10" if "c \<in> set (print_decimal n)" for c
    using that print_decimal_digits ISDIGIT_facts by blast
  moreover have "\<not> digit_value (CHR '' '') < 10" by code_simp
  ultimately have tw: "strtoul_digits 10 p = print_decimal n"
    unfolding strtoul_digits_def p_def by (rule takeWhile_stop)
  have ne: "print_decimal n \<noteq> []" by (simp add: D)
  have le: "\<not> ULONG_MAX < int n" using n by (simp add: ULONG_MAX_def)
  show ?thesis
    unfolding p_def [symmetric] xstrtoul_def Let_def
    using f d ne le by (simp add: dw c0 tw strtoul_value_print_decimal)
qed

lemma length_suffix_print_decimal:
  assumes n: "0 < n" "n \<le> 512" "n mod 8 = 0"
  shows "length_suffix (pre @ print_decimal n @ CHR '' '' # r) (length pre)
           = Some (n, length pre + length (print_decimal n))"
proof -
  have "ISDIGIT c" if "c \<in> set (print_decimal n)" for c
    using that by (rule print_decimal_digits)
  moreover have "\<not> ISDIGIT (CHR '' '')" by code_simp
  ultimately have tw: "takeWhile ISDIGIT (print_decimal n @ CHR '' '' # r) = print_decimal n"
    by (rule takeWhile_stop)
  have m: "int n mod 8 = 0" using n(3) by presburger
  show ?thesis
    using n m
    by (simp add: length_suffix_def xstrtoul_print_decimal tw digest_max_len_def)
qed

lemma variable_type_string:
  "DIGEST_TYPE_STRING_variable_size a = algorithm_out_string a"
  by (cases a) simp_all

lemma algorithm_out_string_hd:
  "\<exists>t ts. algorithm_out_string a = t # ts \<and> \<not> ISWHITE t \<and> t \<noteq> BACKSLASH
           \<and> t \<notin> set ''0123456789abcdef''"
  by (cases a) (simp_all add: ISWHITE_def BACKSLASH_def)

lemma algorithm_out_string_no_NUL: "NUL \<notin> set (algorithm_out_string a)"
  by (cases a) (simp_all add: NUL_def)

lemma argmatch_exact: "argmatch arg [arg] = 0"
  by (simp add: argmatch_def)

lemma skip_variants_stop:
  "c = NUL \<or> ISWHITE c \<or> c = CHR ''-'' \<or> c = CHR ''('' \<Longrightarrow> skip_variants (xs @ c # r) (length xs) = length xs"
  by (auto simp: skip_variants_def)

lemma drop_length_append: "drop (length xs + n) (xs @ ys) = drop n ys"
  by simp

lemma line_start:
  assumes "\<not> ISWHITE t" "t \<noteq> BACKSLASH"
  shows "skip_white ((if esc then [BACKSLASH] else []) @ t # r) 0 = 0
         \<and> (cs ((if esc then [BACKSLASH] else []) @ t # r) 0 = BACKSLASH) = esc"
  using assms by (simp add: skip_white_stop cs_Cons_0 ISWHITE_def BACKSLASH_def)

lemma split_3_variable_size_tagged_suffix:
  assumes n: "0 < dl" "dl \<le> 512" "dl mod 8 = 0"
  shows "split_3_variable_size a sizes bsd
           ((if esc then [BACKSLASH] else []) @ algorithm_out_string a
              @ CHR ''-'' # print_decimal dl @ CHR '' '' # CHR ''('' # rest)
         = (case bsd_split_3 (dl div 4) rest esc of
              None \<Rightarrow> Inr (None, bsd, (dl, dl div 4))
            | Some (h, f) \<Rightarrow> Inr (Some (h, Some 0, f), bsd, (dl, dl div 4)))"
proof -
  from algorithm_out_string_hd [of a] obtain t ts where
    T: "algorithm_out_string a = t # ts" and t: "\<not> ISWHITE t" "t \<noteq> BACKSLASH" by blast
  define pre where "pre = (if esc then [BACKSLASH] else [])"
  define A where "A = algorithm_out_string a"
  define D where "D = print_decimal dl"
  define tl where "tl = D @ CHR '' '' # CHR ''('' # rest"
  define line where "line = pre @ A @ CHR ''-'' # tl"
  define s1 where "s1 = pre @ A @ NUL # tl"
  define i where "i = length pre"
  define j where "j = i + length A"
  define k where "k = Suc j + length D"
  have st: "skip_white line 0 = 0" "(cs line 0 = BACKSLASH) = esc"
    using line_start [OF t, of esc "ts @ CHR ''-'' # tl"] by (simp_all add: line_def pre_def A_def T)
  have ii: "(if esc then 0 + 1 else 0) = i" by (simp add: i_def pre_def)
  have tk: "take (length A) (drop i line) = A" by (simp add: line_def i_def)
  have sv: "skip_variants line j = j"
    using skip_variants_stop [of "CHR ''-''" "pre @ A" tl] by (simp add: line_def i_def j_def)
  have cj: "cs line j = CHR ''-''"
    using cs_append_right [of "pre @ A" "CHR ''-'' # tl" 0] by (simp add: line_def i_def j_def cs_Cons_0)
  have u1: "line[j := NUL] = s1"
    using list_update_length [of "pre @ A" "CHR ''-''" tl NUL] by (simp add: line_def s1_def i_def j_def)
  have an: "cstring (drop i s1) = A"
    using cstring_append_NUL [OF algorithm_out_string_no_NUL, of a tl]
    by (simp add: s1_def i_def A_def)
  have ll: "\<not> length line < j + 1" by (simp add: line_def i_def j_def)
  have s1e: "s1 = (pre @ A @ [NUL]) @ print_decimal dl @ CHR '' '' # CHR ''('' # rest"
    by (simp add: s1_def tl_def D_def)
  have lp: "length (pre @ A @ [NUL]) = j + 1" by (simp add: i_def j_def)
  have ls: "length_suffix s1 (j + 1) = Some (dl, k)"
    unfolding s1e lp [symmetric]
    using length_suffix_print_decimal [OF n, of "pre @ A @ [NUL]" "CHR ''('' # rest"]
    by (simp add: k_def j_def i_def D_def)
  have s1k: "s1 = (pre @ A @ NUL # D) @ CHR '' '' # CHR ''('' # rest"
    by (simp add: s1_def tl_def)
  have lk: "length (pre @ A @ NUL # D) = k" by (simp add: i_def j_def k_def)
  have c2: "cs s1 k = CHR '' ''"
    unfolding s1k lk [symmetric]
    using cs_append_right [of "pre @ A @ NUL # D" "CHR '' '' # CHR ''('' # rest" 0]
    by (simp add: cs_Cons_0)
  have c3: "cs s1 (k + 1) = CHR ''(''"
    unfolding s1k lk [symmetric]
    using cs_append_right [of "pre @ A @ NUL # D" "CHR '' '' # CHR ''('' # rest" 1]
    by (simp add: cs_Cons_0 cs_Cons_Suc)
  have "drop (length (pre @ A @ NUL # D) + 2) s1 = drop 2 (CHR '' '' # CHR ''('' # rest)"
    unfolding s1k by (rule drop_length_append)
  then have dr: "drop (k + 1 + 1) s1 = rest"
    unfolding lk by (simp add: numeral_2_eq_2)
  have am: "\<not> argmatch A [A] < 0" by (simp add: argmatch_exact)
  have line_eq: "(if esc then [BACKSLASH] else []) @ algorithm_out_string a
              @ CHR ''-'' # print_decimal dl @ CHR '' '' # CHR ''('' # rest = line"
    by (simp add: line_def pre_def A_def tl_def D_def)
  show ?thesis
    unfolding line_eq
    unfolding split_3_variable_size_def Let_def variable_type_string
    unfolding A_def [symmetric]
    unfolding st ii
    unfolding j_def [symmetric]
    unfolding sv cj u1 an
    apply (simp only: tk am ll if_True if_False simp_thms ls c2 c3 dr option.case prod.case digest_max_len_def)
    apply (simp only: char.inject simp_thms if_False)
    apply (simp only: ls option.case prod.case c2 if_True)
    apply (simp only: c3 dr if_True simp_thms)
    done
qed

lemma split_3_variable_size_tagged_plain:
  "split_3_variable_size a sizes bsd
           ((if esc then [BACKSLASH] else []) @ algorithm_out_string a
              @ CHR '' '' # CHR ''('' # rest)
         = (case bsd_split_3 (512 div 4) rest esc of
              None \<Rightarrow> Inr (None, bsd, (512, 512 div 4))
            | Some (h, f) \<Rightarrow> Inr (Some (h, Some 0, f), bsd, (512, 512 div 4)))"
proof -
  from algorithm_out_string_hd [of a] obtain t ts where
    T: "algorithm_out_string a = t # ts" and t: "\<not> ISWHITE t" "t \<noteq> BACKSLASH" by blast
  define pre where "pre = (if esc then [BACKSLASH] else [])"
  define A where "A = algorithm_out_string a"
  define tl where "tl = CHR ''('' # rest"
  define line where "line = pre @ A @ CHR '' '' # tl"
  define s1 where "s1 = pre @ A @ NUL # tl"
  define i where "i = length pre"
  define j where "j = i + length A"
  have st: "skip_white line 0 = 0" "(cs line 0 = BACKSLASH) = esc"
    using line_start [OF t, of esc "ts @ CHR '' '' # tl"] by (simp_all add: line_def pre_def A_def T)
  have ii: "(if esc then 0 + 1 else 0) = i" by (simp add: i_def pre_def)
  have tk: "take (length A) (drop i line) = A" by (simp add: line_def i_def)
  have sv: "skip_variants line j = j"
    using skip_variants_stop [of "CHR '' ''" "pre @ A" tl]
    by (simp add: line_def i_def j_def ISWHITE_def)
  have cj: "cs line j = CHR '' ''"
    using cs_append_right [of "pre @ A" "CHR '' '' # tl" 0] by (simp add: line_def i_def j_def cs_Cons_0)
  have u1: "line[j := NUL] = s1"
    using list_update_length [of "pre @ A" "CHR '' ''" tl NUL] by (simp add: line_def s1_def i_def j_def)
  have an: "cstring (drop i s1) = A"
    using cstring_append_NUL [OF algorithm_out_string_no_NUL, of a tl]
    by (simp add: s1_def i_def A_def)
  have ll: "\<not> length line < j + 1" by (simp add: line_def i_def j_def)
  have s1k: "s1 = (pre @ A @ [NUL]) @ CHR ''('' # rest"
    by (simp add: s1_def tl_def)
  have lk: "length (pre @ A @ [NUL]) = j + 1" by (simp add: i_def j_def)
  have c3: "cs s1 (j + 1) = CHR ''(''"
    unfolding s1k lk [symmetric]
    using cs_append_right [of "pre @ A @ [NUL]" "CHR ''('' # rest" 0]
    by (simp add: cs_Cons_0)
  have "drop (length (pre @ A @ [NUL]) + 1) s1 = drop 1 (CHR ''('' # rest)"
    unfolding s1k by (rule drop_length_append)
  then have dr: "drop (j + 1 + 1) s1 = rest"
    unfolding lk by simp
  have am: "\<not> argmatch A [A] < 0" by (simp add: argmatch_exact)
  have line_eq: "(if esc then [BACKSLASH] else []) @ algorithm_out_string a
              @ CHR '' '' # CHR ''('' # rest = line"
    by (simp add: line_def pre_def A_def tl_def)
  have mx: "digest_max_len * 8 = 512" by (simp add: digest_max_len_def)
  show ?thesis
    unfolding line_eq
    unfolding split_3_variable_size_def Let_def variable_type_string
    unfolding A_def [symmetric]
    unfolding st ii
    unfolding j_def [symmetric]
    unfolding sv cj u1 an mx
    apply (simp only: tk am ll if_True if_False simp_thms option.case prod.case)
    apply (simp only: char.inject simp_thms if_False)
    apply (simp only: option.case prod.case c3 if_True)
    apply (simp only: c3 dr if_True if_False simp_thms char.inject)
    done
qed

lemma lower_hex_isxdigit: "c \<in> set ''0123456789abcdef'' \<Longrightarrow> isxdigit c"
proof -
  have "\<forall>c\<in>set ''0123456789abcdef''. isxdigit c" by code_simp
  then show "c \<in> set ''0123456789abcdef'' \<Longrightarrow> isxdigit c" by blast
qed

lemma split_3_variable_size_untagged:
  assumes len: "length H = n"
    and n: "2 \<le> n" "n mod 2 = 0" "n \<le> 128"
    and hex: "\<forall>c\<in>set H. c \<in> set ''0123456789abcdef''"
    and m: "m = CHR '' '' \<or> m = CHR ''*''"
    and E: "E \<noteq> []"
    and bsd: "bsd \<noteq> 1"
    and min: "MIN_DIGEST_LINE_LENGTH_variable_size a \<le> n + 2 + length E"
    and f: "(if esc then filename_unescape E = Some f else cstring E = f)"
  shows "split_3_variable_size a sizes bsd ((if esc then [BACKSLASH] else []) @ H @ CHR '' '' # m # E)
           = Inr (Some (H, Some (if m = CHR ''*'' then 1 else 0), f), 0, (n * 4, n))"
proof -
  from len n(1) obtain h0 H' where H: "H = h0 # H'" by (cases H) auto
  have hexd: "\<forall>c\<in>set H. isxdigit c" using hex lower_hex_isxdigit by blast
  from hexd H have h0: "isxdigit h0" by simp
  from hex H have h0l: "h0 \<in> set ''0123456789abcdef''" by simp
  note f0 = isxdigit_facts [OF h0]
  from algorithm_out_string_hd [of a] obtain t ts where
    T: "algorithm_out_string a = t # ts" and t: "t \<notin> set ''0123456789abcdef''" by blast
  define pre where "pre = (if esc then [BACKSLASH] else [])"
  define A where "A = algorithm_out_string a"
  define tl where "tl = m # E"
  define line where "line = pre @ H @ CHR '' '' # tl"
  define s1 where "s1 = pre @ H @ NUL # tl"
  define i where "i = length pre"
  define k where "k = i + n"
  have st: "skip_white line 0 = 0" "(cs line 0 = BACKSLASH) = esc"
    using line_start [of h0 esc "H' @ CHR '' '' # tl"] f0 by (simp_all add: line_def pre_def H)
  have ii: "(if esc then 0 + 1 else 0) = i" by (simp add: i_def pre_def)
  have dl: "drop i line = H @ CHR '' '' # tl" by (simp add: line_def i_def)
  have "h0 \<noteq> t" using h0l t by auto
  then have nt: "take (length A) (drop i line) \<noteq> A"
    unfolding dl by (simp add: A_def T H)
  have ci: "cs line i \<noteq> BACKSLASH"
    using cs_append_right [of pre "H @ CHR '' '' # tl" 0] f0 by (simp add: line_def i_def H cs_Cons_0)
  have ll: "length line - i = n + 2 + length E" by (simp add: line_def i_def len tl_def)
  have nsw: "\<not> isxdigit (CHR '' '')" by (simp add: isxdigit_def)
  have "takeWhile isxdigit (H @ CHR '' '' # tl) = H"
    using hexd nsw by (intro takeWhile_stop) auto
  then have tw: "length (takeWhile isxdigit (drop i line)) = n"
    unfolding dl by (simp add: len)
  have nc: "\<not> (n < 2 \<or> n mod 2 \<noteq> 0 \<or> digest_max_len * 2 < n)"
    using n by (simp add: digest_max_len_def)
  have lk: "length (pre @ H) = k" by (simp add: i_def k_def len)
  have lineK: "line = (pre @ H) @ CHR '' '' # tl" by (simp add: line_def)
  have ck: "ISWHITE (cs line k)"
    unfolding lineK lk [symmetric]
    using cs_append_right [of "pre @ H" "CHR '' '' # tl" 0] by (simp add: cs_Cons_0 ISWHITE_def)
  have u1: "line[k := NUL] = s1"
    unfolding lineK lk [symmetric] s1_def
    using list_update_length [of "pre @ H" "CHR '' ''" tl NUL] by simp
  have ds1: "drop i s1 = H @ NUL # tl" by (simp add: s1_def i_def)
  have hd: "hex_digits n (drop i s1)"
    unfolding ds1 using hex_digits_append_NUL [OF hexd] by (simp add: len)
  have nn: "NUL \<notin> set H" using hexd isxdigit_facts by blast
  have cst: "cstring (drop i s1) = H"
    unfolding ds1 by (rule cstring_append_NUL [OF nn])
  have s1K: "s1 = (pre @ H @ [NUL]) @ m # E" by (simp add: s1_def tl_def)
  have lk1: "length (pre @ H @ [NUL]) = k + 1" by (simp add: i_def k_def len)
  have ck1: "cs s1 (k + 1) = m"
    unfolding s1K lk1 [symmetric]
    using cs_append_right [of "pre @ H @ [NUL]" "m # E" 0] by (simp add: cs_Cons_0)
  have "drop (length (pre @ H @ [NUL]) + 1) s1 = drop 1 (m # E)"
    unfolding s1K by (rule drop_length_append)
  then have dr: "drop (k + 1 + 1) s1 = E"
    unfolding lk1 by simp
  have l1: "length line - (k + 1) \<noteq> 1"
    using E by (simp add: line_def i_def k_def len tl_def)
  have mn: "\<not> n + 2 + length E
               < MIN_DIGEST_LINE_LENGTH_variable_size a + (if cs line i = BACKSLASH then 1 else 0)"
    using min ci by simp
  have mm: "\<not> (m \<noteq> CHR '' '' \<and> m \<noteq> CHR ''*'')" using m by auto
  have fin: "split_3_finish s1 (k + 1 + 1) esc H (Some (if m = CHR ''*'' then 1 else 0)) 0
               = (Some (H, Some (if m = CHR ''*'' then 1 else 0), f), 0)"
    unfolding split_3_finish_def dr using f by (cases esc) simp_all
  have line_eq: "(if esc then [BACKSLASH] else []) @ H @ CHR '' '' # m # E = line"
    by (simp add: line_def pre_def tl_def)
  show ?thesis
    unfolding line_eq
    unfolding split_3_variable_size_def Let_def variable_type_string
    unfolding A_def [symmetric]
    unfolding st ii
    apply (simp only: nt if_False ll mn tw nc)
    unfolding k_def [symmetric]
    apply (simp only: ck u1 hd cst ck1 l1 mm bsd fin simp_thms if_True if_False fst_conv snd_conv)
    done
qed

lemma print_digest_split_3_variable_size:
  assumes nul: "NUL \<notin> set name"
    and un: "prefix_tag cfg \<or> (name \<noteq> [] \<and> bsd \<noteq> 1)"
    and sizes: "main_digest_length a optargs False = Some sizes"
  shows "split_3_variable_size a sizes0 bsd
           (butlast (print_digest_variable_size a cfg sizes name is_binary digest))
           = Inr (Some (print_hex (snd sizes div 2) digest,
                        Some (if prefix_tag cfg then 0 else if is_binary \<noteq> 0 then 1 else 0),
                        name),
                  if prefix_tag cfg then bsd else 0, sizes)"
proof -
  obtain dl dh where sz: "sizes = (dl, dh)" by (cases sizes)
  from main_digest_length_facts [OF sizes [unfolded sz]]
  have dl: "0 < dl" "dl \<le> 512" "dl mod 8 = 0" and dh: "dh = dl div 4"
    and sha: "a = SHA3 \<longrightarrow> 224 \<le> dl" by blast+
  have dh2: "2 * (dh div 2) = dh" using dl(3) dh by presburger
  have dh4: "dh * 4 = dl" using dl(3) dh by presburger
  have dhn: "2 \<le> dh" "dh mod 2 = 0" "dh \<le> 128" using dl dh by presburger+
  define H where "H = print_hex (dh div 2) digest"
  define ne where "ne = ((BACKSLASH \<in> set name \<or> NEWLINE \<in> set name) \<and> delim cfg = NEWLINE)"
  define E where "E = print_filename name ne"
  define m where "m = (if is_binary \<noteq> 0 then CHR ''*'' else CHR '' '')"
  have len: "length H = dh" by (simp add: H_def length_print_hex dh2)
  have low: "\<forall>c\<in>set H. c \<in> set ''0123456789abcdef''"
    unfolding H_def using print_hex_lower by blast
  have hex: "\<forall>c\<in>set H. isxdigit c" by (simp add: H_def print_hex_xdigit)
  have Hne: "H \<noteq> []" using len dhn by auto
  have m: "m = CHR '' '' \<or> m = CHR ''*''" by (simp add: m_def)
  have mb: "(if m = CHR ''*'' then 1 else 0) = (if is_binary \<noteq> 0 then 1 else (0::int))"
    by (simp add: m_def)
  have Ef: "(if ne then filename_unescape E = Some name else cstring E = name)"
  proof (cases ne)
    case True
    with nul show ?thesis by (simp add: E_def filename_unescape_print_filename)
  next
    case False
    with nul show ?thesis by (simp add: E_def print_filename_def cstring_no_NUL)
  qed
  show ?thesis
  proof (cases "prefix_tag cfg")
    case True
    have b: "bsd_split_3 (dl div 4) (E @ CHR '')'' # CHR '' '' # CHR ''='' # CHR '' '' # H) ne
               = Some (H, name)"
      using bsd_split_3_parse [OF hex Hne, of E ne] Ef by (cases ne) (simp_all add: len dh)
    show ?thesis
    proof (cases "dl < 512")
      case s: True
      have line: "butlast (print_digest_variable_size a cfg sizes name is_binary digest)
                  = (if ne then [BACKSLASH] else []) @ algorithm_out_string a
                      @ CHR ''-'' # print_decimal dl
                      @ CHR '' '' # CHR ''('' # (E @ CHR '')'' # CHR '' '' # CHR ''='' # CHR '' '' # H)"
        using True s
        by (simp add: print_digest_variable_size_def Let_def H_def E_def ne_def butlast_append sz
              digest_max_len_def)
      show ?thesis
        unfolding line split_3_variable_size_tagged_suffix [OF dl] b
        using True by (simp add: sz dh H_def)
    next
      case s: False
      with dl have d512: "dl = 512" by simp
      have line: "butlast (print_digest_variable_size a cfg sizes name is_binary digest)
                  = (if ne then [BACKSLASH] else []) @ algorithm_out_string a
                      @ CHR '' '' # CHR ''('' # (E @ CHR '')'' # CHR '' '' # CHR ''='' # CHR '' '' # H)"
        using True s
        by (simp add: print_digest_variable_size_def Let_def H_def E_def ne_def butlast_append sz
              digest_max_len_def)
      from b have b': "bsd_split_3 (512 div 4) (E @ CHR '')'' # CHR '' '' # CHR ''='' # CHR '' '' # H) ne
               = Some (H, name)" unfolding d512 .
      show ?thesis
        unfolding line split_3_variable_size_tagged_plain b'
        using True by (simp add: sz dh H_def d512)
    qed
  next
    case False
    with un have nm: "name \<noteq> []" and bsd: "bsd \<noteq> 1" by auto
    from nm have Ene: "E \<noteq> []" by (simp add: E_def print_filename_Nil_iff)
    have min: "MIN_DIGEST_LINE_LENGTH_variable_size a \<le> dh + 2 + length E"
      using sha dhn dh by (cases a) simp_all
    have line: "butlast (print_digest_variable_size a cfg sizes name is_binary digest)
                  = (if ne then [BACKSLASH] else []) @ H @ CHR '' '' # m # E"
      using False
      by (simp add: print_digest_variable_size_def Let_def H_def E_def ne_def m_def butlast_append sz)
    show ?thesis
      unfolding line split_3_variable_size_untagged [OF len dhn low m Ene bsd min Ef] mb
      using False by (simp add: sz dh4 H_def)
  qed
qed

subsection \<open>The round trip\<close>

lemma print_digest_split_3_fixed_size:
  assumes nul: "NUL \<notin> set name"
    and un: "prefix_tag cfg \<or> (name \<noteq> [] \<and> bsd \<noteq> 1)"
  shows "split_3 (algo cfg) bsd (butlast (print_digest cfg name is_binary digest))
           = (Some (print_hex (DIGEST_HEX_BYTES (algo cfg) div 2) digest,
                    Some (if prefix_tag cfg then 0 else if is_binary \<noteq> 0 then 1 else 0),
                    name),
              if prefix_tag cfg then bsd else 0)"
proof -
  define H where "H = print_hex (DIGEST_HEX_BYTES (algo cfg) div 2) digest"
  define ne where "ne = ((BACKSLASH \<in> set name \<or> NEWLINE \<in> set name) \<and> delim cfg = NEWLINE)"
  define E where "E = print_filename name ne"
  define m where "m = (if is_binary \<noteq> 0 then CHR ''*'' else CHR '' '')"
  have len: "length H = DIGEST_HEX_BYTES (algo cfg)"
    by (simp add: H_def length_print_hex DIGEST_HEX_BYTES_even)
  have hex: "\<forall>c\<in>set H. isxdigit c"
    by (simp add: H_def print_hex_xdigit)
  have Hne: "H \<noteq> []" using len DIGEST_HEX_BYTES_pos [of "algo cfg"] by auto
  have m: "m = CHR '' '' \<or> m = CHR ''*''" by (simp add: m_def)
  have mb: "(if m = CHR ''*'' then 1 else 0) = (if is_binary \<noteq> 0 then 1 else (0::int))"
    by (simp add: m_def)
  have Ee: "filename_unescape E = Some name" if ne
    using that nul by (simp add: E_def filename_unescape_print_filename)
  have Ep: "cstring E = name" if "\<not> ne"
    using that nul by (simp add: E_def print_filename_def cstring_no_NUL)
  show ?thesis
  proof (cases "prefix_tag cfg")
    case True
    have line: "butlast (print_digest cfg name is_binary digest)
                  = (if ne then [BACKSLASH] else []) @ DIGEST_TYPE_STRING (algo cfg)
                      @ CHR '' '' # CHR ''('' # (E @ CHR '')'' # CHR '' '' # CHR ''='' # CHR '' '' # H)"
      using True by (simp add: print_digest_def Let_def H_def E_def ne_def butlast_append)
    have b: "bsd_split_3 (DIGEST_HEX_BYTES (algo cfg))
               (E @ CHR '')'' # CHR '' '' # CHR ''='' # CHR '' '' # H) ne = Some (H, name)"
      using bsd_split_3_parse [OF hex Hne, of E ne] Ee Ep by (cases ne) (simp_all add: len)
    show ?thesis
    proof (cases ne)
      case t: True
      with b have "bsd_split_3 (DIGEST_HEX_BYTES (algo cfg))
               (E @ CHR '')'' # CHR '' '' # CHR ''='' # CHR '' '' # H) True = Some (H, name)"
        by simp
      with t True line show ?thesis
        by (simp add: split_3_tagged_escaped H_def [symmetric])
    next
      case f: False
      with b have "bsd_split_3 (DIGEST_HEX_BYTES (algo cfg))
               (E @ CHR '')'' # CHR '' '' # CHR ''='' # CHR '' '' # H) False = Some (H, name)"
        by simp
      with f True line show ?thesis
        by (simp add: split_3_tagged_plain H_def [symmetric])
    qed
  next
    case False
    with un have nm: "name \<noteq> []" and bsd: "bsd \<noteq> 1" by auto
    from nm have Ene: "E \<noteq> []" by (simp add: E_def print_filename_Nil_iff)
    have line: "butlast (print_digest cfg name is_binary digest)
                  = (if ne then [BACKSLASH] else []) @ H @ CHR '' '' # m # E"
      using False by (simp add: print_digest_def Let_def H_def E_def ne_def m_def butlast_append)
    show ?thesis
    proof (cases ne)
      case t: True
      from split_3_untagged_escaped [OF len hex m Ene bsd Ee [OF t]] t False line mb
      show ?thesis by (simp add: H_def [symmetric])
    next
      case f: False
      from split_3_untagged_plain [OF len hex m Ene bsd] f False line mb Ep [OF f]
      show ?thesis by (simp add: H_def [symmetric])
    qed
  qed
qed

text \<open>
  C3. A line written by \<open>print_digest\<close>, without its delimiter, is parsed by
  \<open>split_3\<close> into the hexadecimal digest of the bytes that were printed (two lower-case
  digits for each byte, the high one first) and the file name that was given, in the
  tagged and in the untagged form, with and without escaping. In the builds with a
  variable digest size \<open>split_3\<close> also restores \<open>digest_length\<close> and
  \<open>digest_hex_bytes\<close>, from the length that follows the name of the algorithm in the
  tag or from the number of hexadecimal digits, for every length that \<open>main\<close>
  accepts. The tag of a line names the algorithm of the build; an untagged line names
  none. The file name is a C string (no NUL); in the untagged form it is not empty and
  the parser has not established the BSD-reversed style.
\<close>

theorem print_digest_split_3_roundtrip:
  assumes nul: "NUL \<notin> set name"
    and un: "prefix_tag cfg \<or> (name \<noteq> [] \<and> bsd \<noteq> 1)"
  shows "split_3 (algo cfg) bsd (butlast (print_digest cfg name is_binary digest))
           = (Some (map (\<lambda>k. ''0123456789abcdef'' !
                              (if even k then unat (digest (k div 2)) div 16
                               else unat (digest (k div 2)) mod 16))
                      [0..<DIGEST_HEX_BYTES (algo cfg)],
                    Some (if prefix_tag cfg then 0 else if is_binary \<noteq> 0 then 1 else 0),
                    name),
              if prefix_tag cfg then bsd else 0)
         \<and> (main_digest_length a optargs False = Some sizes \<longrightarrow>
              split_3_variable_size a sizes0 bsd
                (butlast (print_digest_variable_size a cfg sizes name is_binary digest))
              = Inr (Some (map (\<lambda>k. ''0123456789abcdef'' !
                                     (if even k then unat (digest (k div 2)) div 16
                                      else unat (digest (k div 2)) mod 16))
                             [0..<snd sizes],
                           Some (if prefix_tag cfg then 0 else if is_binary \<noteq> 0 then 1 else 0),
                           name),
                     if prefix_tag cfg then bsd else 0, sizes))"
proof (rule conjI)
  show "split_3 (algo cfg) bsd (butlast (print_digest cfg name is_binary digest))
           = (Some (map (\<lambda>k. ''0123456789abcdef'' !
                              (if even k then unat (digest (k div 2)) div 16
                               else unat (digest (k div 2)) mod 16))
                      [0..<DIGEST_HEX_BYTES (algo cfg)],
                    Some (if prefix_tag cfg then 0 else if is_binary \<noteq> 0 then 1 else 0),
                    name),
              if prefix_tag cfg then bsd else 0)"
    unfolding print_digest_split_3_fixed_size [OF nul un] print_hex_explicit DIGEST_HEX_BYTES_even
    by (rule refl)
next
  show "main_digest_length a optargs False = Some sizes \<longrightarrow>
              split_3_variable_size a sizes0 bsd
                (butlast (print_digest_variable_size a cfg sizes name is_binary digest))
              = Inr (Some (map (\<lambda>k. ''0123456789abcdef'' !
                                     (if even k then unat (digest (k div 2)) div 16
                                      else unat (digest (k div 2)) mod 16))
                             [0..<snd sizes],
                           Some (if prefix_tag cfg then 0 else if is_binary \<noteq> 0 then 1 else 0),
                           name),
                     if prefix_tag cfg then bsd else 0, sizes)"
  proof
    assume sizes: "main_digest_length a optargs False = Some sizes"
    obtain dl dh where sz: "sizes = (dl, dh)" by (cases sizes)
    from main_digest_length_facts [OF sizes [unfolded sz]]
    have "dl mod 8 = 0" "dh = dl div 4" by blast+
    then have "2 * (dh div 2) = dh" by presburger
    then have ev: "2 * (snd sizes div 2) = snd sizes" by (simp add: sz)
    show "split_3_variable_size a sizes0 bsd
                (butlast (print_digest_variable_size a cfg sizes name is_binary digest))
              = Inr (Some (map (\<lambda>k. ''0123456789abcdef'' !
                                     (if even k then unat (digest (k div 2)) div 16
                                      else unat (digest (k div 2)) mod 16))
                             [0..<snd sizes],
                           Some (if prefix_tag cfg then 0 else if is_binary \<noteq> 0 then 1 else 0),
                           name),
                     if prefix_tag cfg then bsd else 0, sizes)"
      unfolding print_digest_split_3_variable_size [OF nul un sizes] print_hex_explicit ev
      by (rule refl)
  qed
qed

theorem print_digest_split_3_roundtrip_witness:
  "NUL \<notin> set ''file.txt''
   \<and> main_digest_length BLAKE2B [128] False = Some (128, 32)
   \<and> split_3 MD5 (- 1) (butlast (print_digest ex_cfg ''file.txt'' 0 ex_md5_empty))
       = (Some (''d41d8cd98f00b204e9800998ecf8427e'', Some 0, ''file.txt''), 0)
   \<and> split_3_variable_size BLAKE2B (0, 0) (- 1)
         (butlast (print_digest_variable_size BLAKE2B ex_cfg (128, 32) ''file.txt'' 0 ex_md5_empty))
       = Inr (Some (''d41d8cd98f00b204e9800998ecf8427e'', Some 0, ''file.txt''), 0, (128, 32))
   \<and> butlast (print_digest_variable_size BLAKE2B (ex_cfg\<lparr>prefix_tag := True\<rparr>) (128, 32)
                (''a'' @ [NEWLINE] @ ''b'') 1 ex_md5_empty)
       = [BACKSLASH] @ ''BLAKE2b-128 (a'' @ [BACKSLASH] @ ''nb) = d41d8cd98f00b204e9800998ecf8427e''
   \<and> split_3_variable_size BLAKE2B (0, 0) (- 1)
         (butlast (print_digest_variable_size BLAKE2B (ex_cfg\<lparr>prefix_tag := True\<rparr>) (128, 32)
                     (''a'' @ [NEWLINE] @ ''b'') 1 ex_md5_empty))
       = Inr (Some (''d41d8cd98f00b204e9800998ecf8427e'', Some 0, ''a'' @ [NEWLINE] @ ''b''),
              - 1, (128, 32))"
proof -
  have h: "map (\<lambda>k. ''0123456789abcdef'' !
                     (if even k then unat (ex_md5_empty (k div 2)) div 16
                      else unat (ex_md5_empty (k div 2)) mod 16)) [0..<32]
             = ''d41d8cd98f00b204e9800998ecf8427e''"
    by code_simp
  have n1: "NUL \<notin> set ''file.txt''" by (simp add: NUL_def)
  have u1: "prefix_tag ex_cfg \<or> (''file.txt'' \<noteq> [] \<and> (- 1 :: int) \<noteq> 1)" by simp
  have a: "algo ex_cfg = MD5" "\<not> prefix_tag ex_cfg" by (simp_all add: ex_cfg_def)
  have d: "DIGEST_HEX_BYTES MD5 = 32" by (simp add: DIGEST_HEX_BYTES_def)
  have s: "main_digest_length BLAKE2B [128] False = Some (128, 32)"
    by (simp add: main_digest_length_def length_option_valid_def digest_max_len_def)
  note r = print_digest_split_3_roundtrip [OF n1 u1, where is_binary = 0 and digest = ex_md5_empty
             and a = BLAKE2B and optargs = "[128]" and sizes = "(128, 32)" and ?sizes0.0 = "(0, 0)"]
  from r [THEN conjunct1]
  have r1: "split_3 MD5 (- 1) (butlast (print_digest ex_cfg ''file.txt'' 0 ex_md5_empty))
       = (Some (''d41d8cd98f00b204e9800998ecf8427e'', Some 0, ''file.txt''), 0)"
    by (simp only: a d h if_False simp_thms)
  from r [THEN conjunct2, THEN mp, OF s]
  have r2: "split_3_variable_size BLAKE2B (0, 0) (- 1)
         (butlast (print_digest_variable_size BLAKE2B ex_cfg (128, 32) ''file.txt'' 0 ex_md5_empty))
       = Inr (Some (''d41d8cd98f00b204e9800998ecf8427e'', Some 0, ''file.txt''), 0, (128, 32))"
    by (simp only: a h snd_conv if_False simp_thms)
  have n2: "NUL \<notin> set (''a'' @ [NEWLINE] @ ''b'')" by (simp add: NUL_def NEWLINE_def)
  have u2: "prefix_tag (ex_cfg\<lparr>prefix_tag := True\<rparr>)
              \<or> (''a'' @ [NEWLINE] @ ''b'' \<noteq> [] \<and> (- 1 :: int) \<noteq> 1)" by simp
  have t: "prefix_tag (ex_cfg\<lparr>prefix_tag := True\<rparr>)" by simp
  have p: "butlast (print_digest_variable_size BLAKE2B (ex_cfg\<lparr>prefix_tag := True\<rparr>) (128, 32)
                (''a'' @ [NEWLINE] @ ''b'') 1 ex_md5_empty)
       = [BACKSLASH] @ ''BLAKE2b-128 (a'' @ [BACKSLASH] @ ''nb) = d41d8cd98f00b204e9800998ecf8427e''"
    by code_simp
  from print_digest_split_3_roundtrip [OF n2 u2, where is_binary = 1 and digest = ex_md5_empty
         and a = BLAKE2B and optargs = "[128]" and sizes = "(128, 32)" and ?sizes0.0 = "(0, 0)",
         THEN conjunct2, THEN mp, OF s]
  have r3: "split_3_variable_size BLAKE2B (0, 0) (- 1)
         (butlast (print_digest_variable_size BLAKE2B (ex_cfg\<lparr>prefix_tag := True\<rparr>) (128, 32)
                     (''a'' @ [NEWLINE] @ ''b'') 1 ex_md5_empty))
       = Inr (Some (''d41d8cd98f00b204e9800998ecf8427e'', Some 0, ''a'' @ [NEWLINE] @ ''b''),
              - 1, (128, 32))"
    by (simp only: t h snd_conv if_True simp_thms)
  from n1 s r1 r2 p r3 show ?thesis by (intro conjI)
qed

text \<open>
  With \<open>bsd_reversed = 1\<close>, the state that an earlier line without a mode character
  leaves, the file name recovered from an untagged line starts with the mode character;
  an untagged line for the empty file name is shorter than the minimum and rejected.
\<close>

theorem print_digest_split_3_roundtrip_counterexample:
  "snd (split_3 MD5 (- 1) ex_bsd_reversed_line) = 1
   \<and> split_3 MD5 1 (butlast (print_digest ex_cfg ''file.txt'' 0 ex_md5_empty))
       = (Some (''d41d8cd98f00b204e9800998ecf8427e'', None, '' file.txt''), 1)
   \<and> split_3 MD5 (- 1) (butlast (print_digest ex_cfg [] 0 ex_md5_empty)) = (None, - 1)"
  by code_simp


section \<open>Properties of the file inventory\<close>

lemma emit_fields [simp]:
  "cwd_n_used (emit d st) = cwd_n_used st"
  "cwd_file (emit d st) = cwd_file st"
  "pending_dirs (emit d st) = pending_dirs st"
  "active_dir_set (emit d st) = active_dir_set st"
  "dev_ino_obstack (emit d st) = dev_ino_obstack st"
  "emitted (emit d st) = emitted st @ [Stderr d]"
  by (simp_all add: emit_def)

text \<open>
  C8 (as amended). An entry that reaches the metadata lookup, whose \<open>stat\<close> fails and
  which \<open>lstat\<close> shows to be a symbolic link, is reported as a bad symlink and is not
  inserted into the inventory, whether it is a command-line operand or a discovered
  entry: the occupancy and the entries of the inventory stay as they were, and nothing is
  queued.
\<close>

theorem gobble_file_bad_symlink:
  assumes reach: "command_line_arg \<or> \<not> file_ignored cfg env nm"
    and ino: "command_line_arg \<longrightarrow> inode = NOT_AN_INODE_NUMBER"
    and nd: "\<not> (nm = ''-'' \<and> cs dirname 0 = NUL)"
    and room: "cwd_n_used st \<le> length (cwd_file st)" "cwd_file st \<noteq> []"
    and full: "full_name = (if cs nm 0 = CHR ''/'' \<or> cs dirname 0 = NUL then nm
                            else attach dirname nm False)"
    and st: "fs_stat env full_name = Inl e"
    and ls: "fs_lstat env full_name = Inr l" "st_mode l = S_IFLNK"
  shows "\<exists>st'. gobble_file cfg env nm type inode command_line_arg dirname st = Done st'
           \<and> emitted st' = emitted st @ [Stderr (BadSymlink e full_name)]
           \<and> cwd_n_used st' = cwd_n_used st
           \<and> take (cwd_n_used st) (cwd_file st') = take (cwd_n_used st) (cwd_file st)
           \<and> pending_dirs st' = pending_dirs st"
proof -
  define block where
    "block = (if cwd_n_used st = cwd_n_alloc st
              then cwd_file st @ map (fs_uninit env) [cwd_n_alloc st ..< 2 * cwd_n_alloc st]
              else cwd_file st)"
  have len: "\<not> length block \<le> cwd_n_used st"
    using room by (auto simp: block_def cwd_n_alloc_def)
  have tk: "take (cwd_n_used st) (block[cwd_n_used st := g]) = take (cwd_n_used st) (cwd_file st)"
    for g
    using room by (auto simp: block_def cwd_n_alloc_def)
  have "gobble_file cfg env nm type inode command_line_arg dirname st
          = Done (emit (BadSymlink e full_name)
                    (st\<lparr>cwd_file := block[cwd_n_used st :=
                          (zero_fileinfo\<lparr>f_stat := (f_stat zero_fileinfo)\<lparr>st_ino := inode\<rparr>,
                                           f_filetype := type\<rparr>)\<lparr>f_stat := l\<rparr>]\<rparr>))"
    using reach ino nd len st ls
    unfolding gobble_file_def Let_def block_def [symmetric] full [symmetric]
    by auto
  then show ?thesis by (simp add: tk)
qed

theorem gobble_file_bad_symlink_witness:
  "\<exists>st'. gobble_file ex_cfg_r ex_env ''loop/gone'' unknown NOT_AN_INODE_NUMBER True [] ex_trav_state
            = Done st'
         \<and> emitted st' = [Stderr (BadSymlink ENOENT ''loop/gone'')]
         \<and> cwd_n_used st' = 0"
proof -
  have s: "fs_stat ex_env ''loop/gone'' = Inl ENOENT"
    by (simp add: ex_env_def ex_loop_paths_def)
  have l: "fs_lstat ex_env ''loop/gone'' = Inr \<lparr>st_dev = 1, st_ino = 14, st_mode = S_IFLNK\<rparr>"
    by (simp add: ex_env_def)
  have f: "''loop/gone'' = (if cs ''loop/gone'' 0 = CHR ''/'' \<or> cs [] 0 = NUL then ''loop/gone''
                            else attach [] ''loop/gone'' False)"
    by (simp add: cs_def)
  from gobble_file_bad_symlink
         [where cfg = ex_cfg_r and env = ex_env and nm = "''loop/gone''" and type = unknown
            and inode = NOT_AN_INODE_NUMBER and command_line_arg = True and dirname = "[]"
            and st = ex_trav_state and full_name = "''loop/gone''" and e = ENOENT, OF _ _ _ _ _ f s l]
  obtain st' where
    "gobble_file ex_cfg_r ex_env ''loop/gone'' unknown NOT_AN_INODE_NUMBER True [] ex_trav_state
       = Done st'"
    "emitted st' = emitted ex_trav_state @ [Stderr (BadSymlink ENOENT ''loop/gone'')]"
    "cwd_n_used st' = cwd_n_used ex_trav_state"
    by (auto simp: ex_trav_state_def)
  then show ?thesis by (intro exI [of _ st']) (simp add: ex_trav_state_def)
qed

text \<open>
  The claim fails for a discovered entry: the broken link \<open>gone\<close> found in
  \<open>loop/\<close> is reported and dropped; no placeholder is inserted.
\<close>

theorem gobble_file_bad_symlink_counterexample:
  "gobble_file ex_cfg_r ex_env ''gone'' regular_file 0 False ''loop/'' ex_trav_state
     = Done (emit (BadSymlink ENOENT ''loop/gone'')
               (ex_trav_state\<lparr>cwd_file :=
                  [zero_fileinfo\<lparr>f_stat := \<lparr>st_dev = 1, st_ino = 14, st_mode = S_IFLNK\<rparr>,
                                  f_filetype := regular_file\<rparr>,
                   zero_fileinfo, zero_fileinfo, zero_fileinfo]\<rparr>))
   \<and> cwd_n_used (emit (BadSymlink ENOENT ''loop/gone'')
               (ex_trav_state\<lparr>cwd_file :=
                  [zero_fileinfo\<lparr>f_stat := \<lparr>st_dev = 1, st_ino = 14, st_mode = S_IFLNK\<rparr>,
                                  f_filetype := regular_file\<rparr>,
                   zero_fileinfo, zero_fileinfo, zero_fileinfo]\<rparr>)) = 0"
  by (simp add: gobble_file_def Let_def ex_env_def ex_cfg_r_def ex_cfg_def ex_trav_state_def
        file_ignored_def patterns_match_def cs_def attach_def basename_is_dot_def NUL_def
        cwd_n_alloc_def NOT_AN_INODE_NUMBER_def ex_loop_paths_def zero_fileinfo_def zero_stat_def
        emit_def numeral_eq_Suc)

text \<open>
  C5. For the inventory that \<open>md5sum -r loop\<close> builds (one entry, a directory named on
  the command line, in slot 0), \<open>extract_dirs_from_files\<close> queues nothing and leaves
  the entry in the inventory: its loop reads the slots \<open>cwd_n_used\<close> down to 1.
\<close>

theorem extract_dirs_from_files_skips_first_slot:
  "extract_dirs_from_files ex_env None True ex_one_directory = Done ex_one_directory
   \<and> pending_dirs ex_one_directory = []
   \<and> is_directory (cwd_file ex_one_directory ! 0)"
  by (simp add: extract_dirs_from_files_def extract_slot_def ex_one_directory_def
        ex_trav_state_def is_directory_def zero_fileinfo_def Let_def)

text \<open>The same for every inventory of one entry that is followed by a slot that is not a directory.\<close>

lemma extract_dirs_from_files_one_entry:
  assumes "cwd_n_used st = 1" and "1 < length (cwd_file st)"
    and "\<not> is_directory (cwd_file st ! 1)"
  shows "extract_dirs_from_files env None command_line_arg st = Done st"
  using assms by (simp add: extract_dirs_from_files_def extract_slot_def Let_def)

end
